theory Spec2Isabelle
  imports Main
begin

section \<open>The birthday notification service (notificationService.ts)\<close>

text \<open>
  The module has three exported functions: \<open>getApproachingBirthdays\<close> (a database
  aggregation that finds the friends whose birthday approaches),
  \<open>sendExpoNotifications\<close> (builds push messages, submits them in chunks, caches the
  tickets and schedules the receipt check) and \<open>handleExpoReceipts\<close> (reads the cached
  tickets back and polls the provider for receipts).

  Effects are explicit: the ticket cache, the console, the pending timers and the calls
  made to the push provider are fields of a \<open>world\<close> record that every function
  takes and returns. What the provider answers is an argument of the model.
  A \<open>throw\<close> is a value \<open>Inl e\<close> of a sum type, a \<open>try/catch\<close> a case split
  on it.
\<close>

subsection \<open>Values\<close>

text \<open>
  JSON documents, as the provider returns them (tickets) and as \<open>JSON.parse\<close> yields
  them. Numbers are restricted to integers. An object is the list of its properties in
  insertion order.
\<close>

datatype json =
    JNull
  | JBool bool
  | JNum int
  | JStr string
  | JArr "json list"
  | JObj "(string \<times> json) list"

datatype error =
    SyntaxError
  | TypeError
  | ProviderError string
  | QueryError string
  | UnrecognizedTimeZone string
  | YearOutOfRange int

text \<open>
  A string handed to \<open>JSON.parse\<close> is represented by what the parser makes of it:
  the document it spells, or nothing when it is not a JSON text. The code uses a cached
  string in no other way.
\<close>

datatype cached = Text json | Malformed

definition JSON_stringify :: "json \<Rightarrow> cached" where
  "JSON_stringify v = Text v"

text \<open>
  \<open>JSON.parse(undefined)\<close> converts its argument to the string \<open>undefined\<close>,
  which is not a JSON text: a SyntaxError.
\<close>

fun JSON_parse :: "cached option \<Rightarrow> error + json" where
  "JSON_parse None = Inl SyntaxError"
| "JSON_parse (Some Malformed) = Inl SyntaxError"
| "JSON_parse (Some (Text v)) = Inr v"

text \<open>JavaScript's conversion to boolean (\<open>!!v\<close>, \<open>if (v)\<close>); \<open>None\<close> is \<open>undefined\<close>.\<close>

fun truthy :: "json option \<Rightarrow> bool" where
  "truthy None = False"
| "truthy (Some JNull) = False"
| "truthy (Some (JBool b)) = b"
| "truthy (Some (JNum n)) = (n \<noteq> 0)"
| "truthy (Some (JStr s)) = (s \<noteq> [])"
| "truthy (Some (JArr xs)) = True"
| "truthy (Some (JObj kvs)) = True"

text \<open>
  Reading a property \<open>v.k\<close>: a TypeError on \<open>null\<close>, the last value stored under
  the key for an object, \<open>undefined\<close> for every other JSON value (the only own
  property of a string or an array that is asked for here is \<open>id\<close>, which they
  do not have).
\<close>

fun get_property :: "json \<Rightarrow> string \<Rightarrow> error + json option" where
  "get_property JNull k = Inl TypeError"
| "get_property (JObj kvs) k = Inr (map_of (rev kvs) k)"
| "get_property v k = Inr None"

text \<open>
  What \<open>for (let x of v)\<close> iterates over: the elements of an array, the characters of
  a string; every other JSON value is not iterable.
\<close>

fun iterate :: "json \<Rightarrow> error + json list" where
  "iterate (JArr xs) = Inr xs"
| "iterate (JStr s) = Inr (map (\<lambda>c. JStr [c]) s)"
| "iterate v = Inl TypeError"

text \<open>
  \<open>Number.prototype.toString\<close> on a whole number of absolute value below \<open>10^21\<close>:
  its decimal digits, after a minus sign when it is negative. From \<open>10^21\<close> on
  JavaScript prints an exponent, which this function does not: what is stated about a
  printed number is stated below that bound. The numbers printed here are
  \<open>Date.now()\<close> and the result of \<open>$dateDiff\<close>, a 64-bit integer, both far below it.
\<close>

function digits :: "int \<Rightarrow> string" where
  "digits n = (if n < 10 then [''0123456789'' ! nat n]
               else digits (n div 10) @ [''0123456789'' ! nat (n mod 10)])"
  by pat_completeness auto
termination
  by (relation "measure nat") auto

declare digits.simps [simp del]

definition Number_toString :: "int \<Rightarrow> string" where
  "Number_toString n = (if n < 0 then CHR ''-'' # digits (- n) else digits n)"

subsection \<open>The world\<close>

record ExpoPushMessage =
  to :: "string option"
  sound :: string
  body :: string

text \<open>
  A receipt, as the SDK types it: \<open>details\<close> and its \<open>error\<close> code are optional.
\<close>

record receipt_details =
  error_code :: "string option"

record ExpoPushReceipt =
  status :: string
  message :: string
  details :: "receipt_details option"

datatype log_entry =
    Console_error error
  | Console_error_text string
  | Console_log_tickets "json list"
  | Console_log_receipts "(string \<times> ExpoPushReceipt) list"

text \<open>
  \<open>outbox\<close> lists the chunks passed to \<open>sendPushNotificationsAsync\<close> so far,
  \<open>polls\<close> those passed to \<open>getPushNotificationReceiptsAsync\<close>, \<open>timers\<close> the
  callbacks registered with \<open>setTimeout\<close> (delay in milliseconds, identifier to
  reconcile), \<open>clock\<close> is what \<open>Date.now()\<close> returns.
\<close>

record world =
  ticketCache :: "string \<rightharpoonup> cached"
  console :: "log_entry list"
  timers :: "(int \<times> string) list"
  clock :: int
  outbox :: "ExpoPushMessage list list"
  polls :: "json list list"

definition console_write :: "log_entry \<Rightarrow> world \<Rightarrow> world" where
  "console_write l w = w\<lparr>console := console w @ [l]\<rparr>"

text \<open>
  Modelled from the spec: the ticket cache (utilities/cache) is not among the sources.
  The spec gives it as a keyed in-memory store with
  \<open>set(key, value)\<close> and \<open>get(key) \<rightarrow> string | absent\<close>.
\<close>

definition ticketCache_set :: "string \<Rightarrow> cached \<Rightarrow> world \<Rightarrow> world" where
  "ticketCache_set k v w = w\<lparr>ticketCache := (ticketCache w)(k \<mapsto> v)\<rparr>"

definition ticketCache_get :: "string \<Rightarrow> world \<Rightarrow> cached option" where
  "ticketCache_get k w = ticketCache w k"

definition setTimeout :: "string \<Rightarrow> int \<Rightarrow> world \<Rightarrow> world" where
  "setTimeout identifier delay w = w\<lparr>timers := timers w @ [(delay, identifier)]\<rparr>"

subsection \<open>The provider SDK's chunking\<close>

text \<open>
  The SDK's \<open>chunkPushNotifications\<close> and \<open>chunkPushNotificationReceiptIds\<close> are a
  library's, not this repository's. Both walk the list once, move each element to the
  current chunk and close the chunk as soon as it holds \<open>limit\<close> elements (every
  message built here has a single recipient, so a message counts once); a last chunk
  that is not empty is closed at the end. \<open>limit\<close> is the provider's constant.
\<close>

fun chunk_loop :: "nat \<Rightarrow> 'a list \<Rightarrow> 'a list \<Rightarrow> 'a list list" where
  "chunk_loop limit chunk [] = (if chunk \<noteq> [] then [chunk] else [])"
| "chunk_loop limit chunk (m # ms) =
     (if limit \<le> length (chunk @ [m]) then (chunk @ [m]) # chunk_loop limit [] ms
      else chunk_loop limit (chunk @ [m]) ms)"

definition chunkPushNotifications :: "nat \<Rightarrow> ExpoPushMessage list \<Rightarrow> ExpoPushMessage list list" where
  "chunkPushNotifications limit messages = chunk_loop limit [] messages"

definition chunkPushNotificationReceiptIds :: "nat \<Rightarrow> json list \<Rightarrow> json list list" where
  "chunkPushNotificationReceiptIds limit ids = chunk_loop limit [] ids"

subsection \<open>sendExpoNotifications\<close>

record IApproachingBirthday =
  userId :: string
  email :: string
  token :: "string option"
  friendId :: string
  friendName :: string
  hoursUntil :: int
  emailNotifications :: bool
  pushNotifications :: bool

text \<open>\<open>!!item.token\<close>: \<open>null\<close> and the empty string are falsy.\<close>

definition token_truthy :: "string option \<Rightarrow> bool" where
  "token_truthy t = (case t of None \<Rightarrow> False | Some s \<Rightarrow> s \<noteq> [])"

definition pushList :: "IApproachingBirthday list \<Rightarrow> IApproachingBirthday list" where
  "pushList list = filter (\<lambda>item. pushNotifications item \<and> token_truthy (token item)) list"

definition message_of :: "IApproachingBirthday \<Rightarrow> ExpoPushMessage" where
  "message_of item =
     \<lparr>to = token item,
      sound = ''default'',
      body = friendName item @ '''s birthday is '' @ Number_toString (hoursUntil item)
               @ '' hours away!''\<rparr>"

text \<open>The \<open>for\<close> loop that pushes one message per item of the push list.\<close>

fun build_messages :: "ExpoPushMessage list \<Rightarrow> IApproachingBirthday list \<Rightarrow> ExpoPushMessage list" where
  "build_messages messages [] = messages"
| "build_messages messages (item # items) = build_messages (messages @ [message_of item]) items"

text \<open>
  The chunks are submitted by an async block that the function calls without awaiting
  it. An async block runs synchronously up to its first \<open>await\<close>: the first chunk is
  handed to the provider, then the block is suspended and control returns to the caller.
  Everything after an \<open>await\<close> runs in a later turn of the event loop, after the
  synchronous rest of \<open>sendExpoNotifications\<close>.

  \<open>activation\<close> is the state the block shares with the function body: the array
  \<open>tickets\<close>, and where the block is suspended (the chunk in flight and the chunks
  still to submit), \<open>None\<close> once the loop has ended.
\<close>

record activation =
  tickets :: "json list"
  awaiting :: "(ExpoPushMessage list \<times> ExpoPushMessage list list) option"

definition submit :: "ExpoPushMessage list \<Rightarrow> world \<Rightarrow> world" where
  "submit chunk w = w\<lparr>outbox := outbox w @ [chunk]\<rparr>"

definition send_start :: "ExpoPushMessage list list \<Rightarrow> world \<Rightarrow> activation \<times> world" where
  "send_start chunks w =
     (case chunks of
        [] \<Rightarrow> (\<lparr>tickets = [], awaiting = None\<rparr>, w)
      | chunk # rest \<Rightarrow> (\<lparr>tickets = [], awaiting = Some (chunk, rest)\<rparr>, submit chunk w))"

text \<open>
  The synchronous part of \<open>sendExpoNotifications\<close>, up to its return. \<open>limit\<close> is
  the SDK's chunk size. No statement of it is inside a \<open>try\<close>, and none can throw.
\<close>

definition sendExpoNotifications ::
  "nat \<Rightarrow> IApproachingBirthday list \<Rightarrow> world \<Rightarrow> (error + activation) \<times> world" where
  "sendExpoNotifications limit list w =
     (let messages = build_messages [] (pushList list);
          chunks = chunkPushNotifications limit messages;
          (act, w1) = send_start chunks w;
          identifier = Number_toString (clock w1);
          w2 = ticketCache_set identifier (JSON_stringify (JArr (tickets act))) w1;
          w3 = setTimeout identifier (60 * 1000) w2
      in (Inr act, w3))"

text \<open>
  The rest of the async block, run by the event loop as the provider answers:
  \<open>send chunk\<close> is the provider's answer to a chunk, \<open>Inl\<close> a rejected promise,
  which the \<open>catch\<close> inside the loop logs. After each answer the next chunk is
  submitted.
\<close>

fun send_loop ::
  "(ExpoPushMessage list \<Rightarrow> error + json list) \<Rightarrow> json list \<Rightarrow> ExpoPushMessage list
     \<Rightarrow> ExpoPushMessage list list \<Rightarrow> world \<Rightarrow> json list \<times> world" where
  "send_loop send tks chunk [] w =
     (case send chunk of
        Inr ticketChunk \<Rightarrow> (tks @ ticketChunk, console_write (Console_log_tickets ticketChunk) w)
      | Inl e \<Rightarrow> (tks, console_write (Console_error e) w))"
| "send_loop send tks chunk (next_chunk # rest) w =
     (case send chunk of
        Inr ticketChunk \<Rightarrow>
          send_loop send (tks @ ticketChunk) next_chunk rest
            (submit next_chunk (console_write (Console_log_tickets ticketChunk) w))
      | Inl e \<Rightarrow>
          send_loop send tks next_chunk rest (submit next_chunk (console_write (Console_error e) w)))"

definition send_resume ::
  "(ExpoPushMessage list \<Rightarrow> error + json list) \<Rightarrow> activation \<Rightarrow> world
     \<Rightarrow> (error + activation) \<times> world" where
  "send_resume send act w =
     (case awaiting act of
        None \<Rightarrow> (Inr act, w)
      | Some (chunk, rest) \<Rightarrow>
          (let (tks, w') = send_loop send (tickets act) chunk rest w
           in (Inr \<lparr>tickets = tks, awaiting = None\<rparr>, w')))"

subsection \<open>handleExpoReceipts\<close>

text \<open>The loop that keeps the \<open>id\<close> of every ticket that has a truthy one.\<close>

fun collect_receiptIds :: "json list \<Rightarrow> json list \<Rightarrow> error + json list" where
  "collect_receiptIds receiptIds [] = Inr receiptIds"
| "collect_receiptIds receiptIds (ticket # rest) =
     (case get_property ticket ''id'' of
        Inl e \<Rightarrow> Inl e
      | Inr None \<Rightarrow> collect_receiptIds receiptIds rest
      | Inr (Some v) \<Rightarrow>
          (if truthy (Some v) then collect_receiptIds (receiptIds @ [v]) rest
           else collect_receiptIds receiptIds rest))"

text \<open>The \<open>for ... in\<close> loop over the receipts of one chunk.\<close>

fun classify :: "(string \<times> ExpoPushReceipt) list \<Rightarrow> world \<Rightarrow> world" where
  "classify [] w = w"
| "classify ((receiptId, r) # rest) w =
     (if status r = ''ok'' then classify rest w
      else if status r = ''error'' then
        (let w1 = console_write
                    (Console_error_text (''There was an error sending a notification: '' @ message r)) w;
             w2 = (case details r of
                     None \<Rightarrow> w1
                   | Some d \<Rightarrow>
                       (case error_code d of
                          None \<Rightarrow> w1
                        | Some c \<Rightarrow>
                            if c \<noteq> [] then
                              console_write (Console_error_text (''The error code is '' @ c)) w1
                            else w1))
         in classify rest w2)
      else classify rest w)"

text \<open>
  The loop over the chunks of receipt ids; \<open>getReceipts chunk\<close> is the provider's
  answer, \<open>Inl\<close> a rejected promise, caught and logged inside the loop.
\<close>

fun poll_loop ::
  "(json list \<Rightarrow> error + (string \<times> ExpoPushReceipt) list) \<Rightarrow> json list list \<Rightarrow> world \<Rightarrow> world" where
  "poll_loop getReceipts [] w = w"
| "poll_loop getReceipts (chunk # rest) w =
     (let w0 = w\<lparr>polls := polls w @ [chunk]\<rparr>
      in case getReceipts chunk of
           Inr receipts \<Rightarrow>
             poll_loop getReceipts rest (classify receipts (console_write (Console_log_receipts receipts) w0))
         | Inl e \<Rightarrow> poll_loop getReceipts rest (console_write (Console_error e) w0))"

text \<open>
  The body of the outer \<open>try\<close>. The cache lookup carries a non-null assertion
  (\<open>ticketCache.get(identifier)!\<close>), which checks nothing at run time: an absent entry
  reaches \<open>JSON.parse\<close> as \<open>undefined\<close>. \<open>rlimit\<close> is the SDK's chunk size for
  receipt ids.
\<close>

definition handle_body ::
  "nat \<Rightarrow> (json list \<Rightarrow> error + (string \<times> ExpoPushReceipt) list) \<Rightarrow> string \<Rightarrow> world
     \<Rightarrow> (error + unit) \<times> world" where
  "handle_body rlimit getReceipts identifier w =
     (case JSON_parse (ticketCache_get identifier w) of
        Inl e \<Rightarrow> (Inl e, w)
      | Inr parsed \<Rightarrow>
          (case iterate parsed of
             Inl e \<Rightarrow> (Inl e, w)
           | Inr tks \<Rightarrow>
               (case collect_receiptIds [] tks of
                  Inl e \<Rightarrow> (Inl e, w)
                | Inr receiptIds \<Rightarrow>
                    (Inr (), poll_loop getReceipts (chunkPushNotificationReceiptIds rlimit receiptIds) w))))"

text \<open>The whole function: the outer \<open>catch\<close> logs whatever the body threw.\<close>

definition handleExpoReceipts ::
  "nat \<Rightarrow> (json list \<Rightarrow> error + (string \<times> ExpoPushReceipt) list) \<Rightarrow> string \<Rightarrow> world
     \<Rightarrow> (error + unit) \<times> world" where
  "handleExpoReceipts rlimit getReceipts identifier w =
     (case handle_body rlimit getReceipts identifier w of
        (Inl e, w') \<Rightarrow> (Inr (), console_write (Console_error e) w')
      | (Inr u, w') \<Rightarrow> (Inr u, w'))"

subsection \<open>Dates and time zones\<close>

text \<open>
  A date is a BSON/JavaScript date: the milliseconds since the Unix epoch, a whole
  number. The calendar is the proleptic Gregorian one, as the database's date operators
  use it: \<open>days_from_civil\<close> numbers the days from 1970-01-01,
  \<open>civil_from_days\<close> is its inverse. A day of the month past the month's end runs
  on into the next month, as \<open>$dateFromParts\<close> lets it.
\<close>

definition days_from_civil :: "int \<Rightarrow> int \<Rightarrow> int \<Rightarrow> int" where
  "days_from_civil y m d =
     (let y' = (if m \<le> 2 then y - 1 else y);
          era = y' div 400;
          yoe = y' - era * 400;
          doy = (153 * (if 2 < m then m - 3 else m + 9) + 2) div 5 + d - 1;
          doe = yoe * 365 + yoe div 4 - yoe div 100 + doy
      in era * 146097 + doe - 719468)"

definition civil_from_days :: "int \<Rightarrow> int \<times> int \<times> int" where
  "civil_from_days z =
     (let z' = z + 719468;
          era = z' div 146097;
          doe = z' - era * 146097;
          yoe = (doe - doe div 1460 + doe div 36524 - doe div 146096) div 365;
          doy = doe - (365 * yoe + yoe div 4 - yoe div 100);
          mp = (5 * doy + 2) div 153;
          d = doy - (153 * mp + 2) div 5 + 1;
          m = (if mp < 10 then mp + 3 else mp - 9)
      in (if m \<le> 2 then yoe + era * 400 + 1 else yoe + era * 400, m, d))"

text \<open>
  \<open>$year\<close>, \<open>$month\<close> and \<open>$dayOfMonth\<close> of a date. The pipeline gives them no
  \<open>timezone\<close>, so they read the date in UTC.
\<close>

definition year_of :: "int \<Rightarrow> int" where
  "year_of t = fst (civil_from_days (t div 86400000))"

definition month_of :: "int \<Rightarrow> int" where
  "month_of t = fst (snd (civil_from_days (t div 86400000)))"

definition dayOfMonth_of :: "int \<Rightarrow> int" where
  "dayOfMonth_of t = snd (snd (civil_from_days (t div 86400000)))"

text \<open>
  The time zone database is the server's, not the repository's: it is an argument of the
  model, a function from the zone's name (an Olson identifier or a UTC offset) to the
  zone's rule, \<open>None\<close> for a name the server does not recognise. A rule converts
  between instants and the zone's wall clock, both in milliseconds.
\<close>

record tzrule =
  to_local :: "int \<Rightarrow> int"
  from_local :: "int \<Rightarrow> int"

text \<open>
  \<open>$dateFromParts\<close> with \<open>year\<close>, \<open>month\<close>, \<open>day\<close> and \<open>timezone\<close>:
  hour, minute, second and millisecond default to 0, so the result is the instant at
  which the zone's wall clock shows 00:00 of that day. A missing or null time zone gives
  null; a name the server does not know and a year outside 1..9999 are errors.
\<close>

definition dateFromParts ::
  "(string \<Rightarrow> tzrule option) \<Rightarrow> int \<Rightarrow> int \<Rightarrow> int \<Rightarrow> string option \<Rightarrow> error + int option" where
  "dateFromParts tzdb y m d tz =
     (case tz of
        None \<Rightarrow> Inr None
      | Some name \<Rightarrow>
          (case tzdb name of
             None \<Rightarrow> Inl (UnrecognizedTimeZone name)
           | Some rule \<Rightarrow>
               if y < 1 \<or> 9999 < y then Inl (YearOutOfRange y)
               else Inr (Some (from_local rule (days_from_civil y m d * 86400000)))))"

text \<open>
  \<open>$dateDiff\<close> with unit \<open>hour\<close> counts the hour boundaries of the zone's wall
  clock that are passed between the two instants, and accounts for daylight saving:
  each instant is moved back to the start of its hour on the zone's clock, and the time
  between the two starts is taken in hours. Where the zone's offset is the same at both
  instants this is the difference of the two wall-clock hour numbers; across a change of
  offset it is the number of hours that really pass. Null when the end date or the time
  zone is null.
\<close>

definition hour_start :: "tzrule \<Rightarrow> int \<Rightarrow> int" where
  "hour_start rule t = t - to_local rule t mod 3600000"

definition hours_between :: "tzrule \<Rightarrow> int \<Rightarrow> int \<Rightarrow> int" where
  "hours_between rule startDate endDate =
     (hour_start rule endDate - hour_start rule startDate) div 3600000"

definition dateDiff_hour ::
  "(string \<Rightarrow> tzrule option) \<Rightarrow> int \<Rightarrow> int option \<Rightarrow> string option \<Rightarrow> error + int option" where
  "dateDiff_hour tzdb startDate endDate tz =
     (case endDate of
        None \<Rightarrow> Inr None
      | Some e \<Rightarrow>
          (case tz of
             None \<Rightarrow> Inr None
           | Some name \<Rightarrow>
               (case tzdb name of
                  None \<Rightarrow> Inl (UnrecognizedTimeZone name)
                | Some rule \<Rightarrow> Inr (Some (hours_between rule startDate e)))))"

text \<open>\<open>$lt\<close> against a date: in the BSON order null sorts before every date.\<close>

definition bson_lt :: "int option \<Rightarrow> int \<Rightarrow> bool" where
  "bson_lt v t = (case v of None \<Rightarrow> True | Some x \<Rightarrow> x < t)"

subsection \<open>The collections\<close>

text \<open>
  The fields the pipeline reads. Identifiers are ObjectIds, kept as their string form.
\<close>

record user_doc =
  user_id :: string
  user_email :: string

record userprofile_doc =
  profile_user :: string
  profile_emailNotifications :: bool
  profile_pushNotifications :: bool
  profile_timezone :: "string option"

record friend_doc =
  friend_id :: string
  friend_user :: string
  friend_name :: string
  friend_dob :: int

record notification_doc =
  notification_userId :: string
  notification_friendId :: string
  dateSent :: int

record deviceinfo_doc =
  device_userId :: string
  deviceToken :: "string option"

record database =
  users_collection :: "user_doc list"
  userprofiles :: "userprofile_doc list"
  friends_collection :: "friend_doc list"
  notifications :: "notification_doc list"
  deviceinfos :: "deviceinfo_doc list"

text \<open>
  A document on its way through the pipeline, after the friends are unwound: the user
  (\<open>root\<close>), the joined sub-documents and the fields the \<open>$addFields\<close> stages add
  (\<open>None\<close>: not set, or null).
\<close>

record pipeline_doc =
  root :: user_doc
  userProfile :: userprofile_doc
  friends :: friend_doc
  thisYearBirthday :: "int option"
  nextYearBirthday :: "int option"
  upcomingBirthday :: "int option"
  hoursUntilBirthday :: "int option"
  recentNotifications :: "notification_doc list"
  device :: "deviceinfo_doc option"

subsection \<open>getApproachingBirthdays: the aggregation pipeline\<close>

text \<open>
  Each stage of the pipeline is a function on the list of documents the stage before it
  produced. A stage whose expression raises an error fails the whole query, so the stages
  that evaluate date expressions run in the error monad.
\<close>

fun each :: "('a \<Rightarrow> error + 'b) \<Rightarrow> 'a list \<Rightarrow> error + 'b list" where
  "each f [] = Inr []"
| "each f (x # xs) =
     (case f x of
        Inl e \<Rightarrow> Inl e
      | Inr y \<Rightarrow> (case each f xs of Inl e \<Rightarrow> Inl e | Inr ys \<Rightarrow> Inr (y # ys)))"

definition and_then :: "error + 'a \<Rightarrow> ('a \<Rightarrow> error + 'b) \<Rightarrow> error + 'b" where
  "and_then r f = (case r of Inl e \<Rightarrow> Inl e | Inr x \<Rightarrow> f x)"

text \<open>
  \<open>$lookup\<close> from userprofiles on \<open>_id = user\<close>, then \<open>$unwind\<close>: one document per
  profile of the user, none for a user without a profile.
\<close>

definition lookup_unwind_userProfile :: "database \<Rightarrow> (user_doc \<times> userprofile_doc) list" where
  "lookup_unwind_userProfile db =
     concat (map (\<lambda>u. map (\<lambda>p. (u, p)) (filter (\<lambda>p. profile_user p = user_id u) (userprofiles db)))
       (users_collection db))"

text \<open>\<open>$match\<close>: email or push notifications are switched on.\<close>

definition match_notifications_enabled ::
  "(user_doc \<times> userprofile_doc) list \<Rightarrow> (user_doc \<times> userprofile_doc) list" where
  "match_notifications_enabled docs =
     filter (\<lambda>(u, p). profile_emailNotifications p = True \<or> profile_pushNotifications p = True) docs"

text \<open>\<open>$lookup\<close> from friends on \<open>_id = user\<close>, then \<open>$unwind\<close>.\<close>

definition lookup_unwind_friends ::
  "database \<Rightarrow> (user_doc \<times> userprofile_doc) list \<Rightarrow> pipeline_doc list" where
  "lookup_unwind_friends db docs =
     concat (map (\<lambda>(u, p).
        map (\<lambda>f. \<lparr>root = u, userProfile = p, friends = f, thisYearBirthday = None,
                   nextYearBirthday = None, upcomingBirthday = None, hoursUntilBirthday = None,
                   recentNotifications = [], device = None\<rparr>)
          (filter (\<lambda>f. friend_user f = user_id u) (friends_collection db))) docs)"

text \<open>The four \<open>$addFields\<close> stages (lines 55 to 102 of the source).\<close>

definition addFields_thisYearBirthday ::
  "(string \<Rightarrow> tzrule option) \<Rightarrow> int \<Rightarrow> pipeline_doc \<Rightarrow> error + pipeline_doc" where
  "addFields_thisYearBirthday tzdb currentDateTime d =
     (case dateFromParts tzdb (year_of currentDateTime) (month_of (friend_dob (friends d)))
             (dayOfMonth_of (friend_dob (friends d))) (profile_timezone (userProfile d)) of
        Inl e \<Rightarrow> Inl e
      | Inr v \<Rightarrow> Inr (d\<lparr>thisYearBirthday := v\<rparr>))"

definition addFields_nextYearBirthday ::
  "(string \<Rightarrow> tzrule option) \<Rightarrow> int \<Rightarrow> pipeline_doc \<Rightarrow> error + pipeline_doc" where
  "addFields_nextYearBirthday tzdb currentDateTime d =
     (case dateFromParts tzdb (year_of currentDateTime + 1) (month_of (friend_dob (friends d)))
             (dayOfMonth_of (friend_dob (friends d))) (profile_timezone (userProfile d)) of
        Inl e \<Rightarrow> Inl e
      | Inr v \<Rightarrow> Inr (d\<lparr>nextYearBirthday := v\<rparr>))"

definition addFields_upcomingBirthday :: "int \<Rightarrow> pipeline_doc \<Rightarrow> pipeline_doc" where
  "addFields_upcomingBirthday currentDateTime d =
     d\<lparr>upcomingBirthday :=
         (if bson_lt (thisYearBirthday d) currentDateTime then nextYearBirthday d
          else thisYearBirthday d)\<rparr>"

definition addFields_hoursUntilBirthday ::
  "(string \<Rightarrow> tzrule option) \<Rightarrow> int \<Rightarrow> pipeline_doc \<Rightarrow> error + pipeline_doc" where
  "addFields_hoursUntilBirthday tzdb currentDateTime d =
     (case dateDiff_hour tzdb currentDateTime (upcomingBirthday d) (profile_timezone (userProfile d)) of
        Inl e \<Rightarrow> Inl e
      | Inr v \<Rightarrow> Inr (d\<lparr>hoursUntilBirthday := v\<rparr>))"

text \<open>
  \<open>$match: { hoursUntilBirthday: { $lte: cutoffHours } }\<close>. A query comparison matches
  values of the operand's type only: a null \<open>hoursUntilBirthday\<close> does not match.
\<close>

definition match_cutoff :: "int \<Rightarrow> pipeline_doc list \<Rightarrow> pipeline_doc list" where
  "match_cutoff cutoffHours docs =
     filter (\<lambda>d. case hoursUntilBirthday d of None \<Rightarrow> False | Some h \<Rightarrow> h \<le> cutoffHours) docs"

text \<open>
  \<open>$lookup\<close> from notifications with a sub-pipeline: the notifications of this user
  about this friend that were sent after \<open>notificationClearanceDateTime\<close>.
\<close>

definition lookup_recentNotifications :: "database \<Rightarrow> int \<Rightarrow> pipeline_doc \<Rightarrow> pipeline_doc" where
  "lookup_recentNotifications db notificationClearanceDateTime d =
     d\<lparr>recentNotifications :=
         filter (\<lambda>n. notification_userId n = profile_user (userProfile d)
                    \<and> notification_friendId n = friend_id (friends d)
                    \<and> notificationClearanceDateTime < dateSent n)
           (notifications db)\<rparr>"

text \<open>\<open>$match: { recentNotifications: { $size: 0 } }\<close>.\<close>

definition match_no_recentNotifications :: "pipeline_doc list \<Rightarrow> pipeline_doc list" where
  "match_no_recentNotifications docs = filter (\<lambda>d. length (recentNotifications d) = 0) docs"

text \<open>
  \<open>$lookup\<close> from deviceinfos on \<open>_id = userId\<close>, then \<open>$unwind\<close> with
  \<open>preserveNullAndEmptyArrays\<close>: a user without a device keeps one document, without
  the \<open>device\<close> field.
\<close>

definition lookup_unwind_device :: "database \<Rightarrow> pipeline_doc list \<Rightarrow> pipeline_doc list" where
  "lookup_unwind_device db docs =
     concat (map (\<lambda>d.
        case filter (\<lambda>v. device_userId v = user_id (root d)) (deviceinfos db) of
          [] \<Rightarrow> [d\<lparr>device := None\<rparr>]
        | v # vs \<Rightarrow> map (\<lambda>v'. d\<lparr>device := Some v'\<rparr>) (v # vs)) docs)"

text \<open>
  \<open>$project\<close> and the \<open>users.map\<close> that follows the query, as one step to the
  interface type. \<open>hoursUntil\<close> is typed as a number: no document reaches the
  projection with a null \<open>hoursUntilBirthday\<close> (lemma \<open>match_cutoff_hours\<close>), and
  the case for it is there to make the function total.
\<close>

definition project :: "pipeline_doc \<Rightarrow> IApproachingBirthday" where
  "project d =
     \<lparr>userId = profile_user (userProfile d),
      email = user_email (root d),
      token = (case device d of None \<Rightarrow> None | Some v \<Rightarrow> deviceToken v),
      friendId = friend_id (friends d),
      friendName = friend_name (friends d),
      hoursUntil = (case hoursUntilBirthday d of None \<Rightarrow> 0 | Some h \<Rightarrow> h),
      emailNotifications = profile_emailNotifications (userProfile d),
      pushNotifications = profile_pushNotifications (userProfile d)\<rparr>"

text \<open>The stages up to the computation of \<open>hoursUntilBirthday\<close> (lines 23 to 102).\<close>

definition candidates ::
  "(string \<Rightarrow> tzrule option) \<Rightarrow> database \<Rightarrow> int \<Rightarrow> error + pipeline_doc list" where
  "candidates tzdb db currentDateTime =
     and_then (each (addFields_thisYearBirthday tzdb currentDateTime)
                (lookup_unwind_friends db (match_notifications_enabled (lookup_unwind_userProfile db))))
       (\<lambda>docs1. and_then (each (addFields_nextYearBirthday tzdb currentDateTime) docs1)
          (\<lambda>docs2. each (addFields_hoursUntilBirthday tzdb currentDateTime)
             (map (addFields_upcomingBirthday currentDateTime) docs2)))"

text \<open>The whole pipeline.\<close>

definition aggregate ::
  "(string \<Rightarrow> tzrule option) \<Rightarrow> database \<Rightarrow> int \<Rightarrow> int \<Rightarrow> int \<Rightarrow> error + IApproachingBirthday list" where
  "aggregate tzdb db currentDateTime cutoffHours notificationClearanceDateTime =
     and_then (candidates tzdb db currentDateTime)
       (\<lambda>docs. Inr (map project
          (lookup_unwind_device db
            (match_no_recentNotifications
              (map (lookup_recentNotifications db notificationClearanceDateTime)
                (match_cutoff cutoffHours docs))))))"

text \<open>
  The function itself. \<open>connection\<close> is the database as the query finds it, or the
  error with which the driver rejects the query; \<open>currentDateTime\<close> is the value of
  \<open>new Date()\<close>. The result is the returned array and what was written to the console.
  The defaults of the two parameters are 96 and 24.
\<close>

definition getApproachingBirthdays ::
  "(string \<Rightarrow> tzrule option) \<Rightarrow> error + database \<Rightarrow> int \<Rightarrow> int \<Rightarrow> int
     \<Rightarrow> IApproachingBirthday list \<times> log_entry list" where
  "getApproachingBirthdays tzdb connection currentDateTime cutoffHours lastNotificationClearance =
     (let notificationClearanceDateTime = currentDateTime - lastNotificationClearance * 3600000
      in case and_then connection
                (\<lambda>db. aggregate tzdb db currentDateTime cutoffHours notificationClearanceDateTime) of
           Inl e \<Rightarrow> ([], [Console_error e])
         | Inr users \<Rightarrow> (users, []))"

section \<open>Derived notions\<close>

text \<open>
  The call of \<open>sendExpoNotifications\<close> followed by the rest of its async block: what
  the dispatch has done once the provider has answered every chunk.
\<close>

definition dispatch_run ::
  "nat \<Rightarrow> (ExpoPushMessage list \<Rightarrow> error + json list) \<Rightarrow> IApproachingBirthday list \<Rightarrow> world
     \<Rightarrow> (error + activation) \<times> world" where
  "dispatch_run limit send list w =
     (case sendExpoNotifications limit list w of
        (Inl e, w1) \<Rightarrow> (Inl e, w1)
      | (Inr act, w1) \<Rightarrow> send_resume send act w1)"

text \<open>The tickets one chunk contributes: those of the answer, none when it was rejected.\<close>

definition ticketChunk_of ::
  "(ExpoPushMessage list \<Rightarrow> error + json list) \<Rightarrow> ExpoPushMessage list \<Rightarrow> json list" where
  "ticketChunk_of send chunk = (case send chunk of Inr ts \<Rightarrow> ts | Inl e \<Rightarrow> [])"

text \<open>The chunks of receipt ids that a cache entry leads \<open>handleExpoReceipts\<close> to poll.\<close>

definition receipt_chunks :: "nat \<Rightarrow> cached option \<Rightarrow> json list list" where
  "receipt_chunks rlimit c =
     (case JSON_parse c of
        Inl e \<Rightarrow> []
      | Inr parsed \<Rightarrow>
          (case iterate parsed of
             Inl e \<Rightarrow> []
           | Inr tks \<Rightarrow>
               (case collect_receiptIds [] tks of
                  Inl e \<Rightarrow> []
                | Inr receiptIds \<Rightarrow> chunkPushNotificationReceiptIds rlimit receiptIds)))"

text \<open>
  The friend's birthday in year \<open>y\<close>: the instant at which the zone's wall clock shows
  00:00 on the month and day of the date of birth.
\<close>

definition occurrence :: "tzrule \<Rightarrow> int \<Rightarrow> int \<Rightarrow> int" where
  "occurrence rule y dob =
     from_local rule (days_from_civil y (month_of dob) (dayOfMonth_of dob) * 86400000)"

text \<open>The stages after the computation of \<open>hoursUntilBirthday\<close> (lines 103 to 167).\<close>

definition resolved ::
  "database \<Rightarrow> int \<Rightarrow> int \<Rightarrow> pipeline_doc list \<Rightarrow> IApproachingBirthday list" where
  "resolved db cutoffHours notificationClearanceDateTime docs =
     map project
       (lookup_unwind_device db
         (match_no_recentNotifications
           (map (lookup_recentNotifications db notificationClearanceDateTime)
             (match_cutoff cutoffHours docs))))"

text \<open>
  Some notification of the document's user about the document's friend was sent after
  the given instant.
\<close>

definition recently_notified :: "database \<Rightarrow> int \<Rightarrow> pipeline_doc \<Rightarrow> bool" where
  "recently_notified db notificationClearanceDateTime d =
     (\<exists>n\<in>set (notifications db).
         notification_userId n = profile_user (userProfile d)
       \<and> notification_friendId n = friend_id (friends d)
       \<and> notificationClearanceDateTime < dateSent n)"

definition empty_database :: database where
  "empty_database =
     \<lparr>users_collection = [], userprofiles = [], friends_collection = [], notifications = [],
      deviceinfos = []\<rparr>"

text \<open>A zone with a fixed offset from UTC, in minutes.\<close>

definition fixed_offset :: "int \<Rightarrow> tzrule" where
  "fixed_offset minutes =
     \<lparr>to_local = (\<lambda>t. t + minutes * 60000), from_local = (\<lambda>l. l - minutes * 60000)\<rparr>"

text \<open>What the console receives while the chunks are submitted: one entry per chunk.\<close>

definition submission_log ::
  "(ExpoPushMessage list \<Rightarrow> error + json list) \<Rightarrow> ExpoPushMessage list list \<Rightarrow> log_entry list" where
  "submission_log send chunks =
     map (\<lambda>chunk. case send chunk of
                    Inl e \<Rightarrow> Console_error e
                  | Inr ticketChunk \<Rightarrow> Console_log_tickets ticketChunk) chunks"

text \<open>What the console receives for the receipts of one chunk, and for a list of chunks.\<close>

definition receipt_log :: "(string \<times> ExpoPushReceipt) list \<Rightarrow> log_entry list" where
  "receipt_log receipts =
     concat (map (\<lambda>(receiptId, r).
        if status r = ''ok'' then []
        else if status r = ''error'' then
          Console_error_text (''There was an error sending a notification: '' @ message r)
            # (case details r of
                 None \<Rightarrow> []
               | Some d \<Rightarrow>
                   (case error_code d of
                      None \<Rightarrow> []
                    | Some c \<Rightarrow>
                        if c \<noteq> [] then [Console_error_text (''The error code is '' @ c)] else []))
        else []) receipts)"

definition poll_log ::
  "(json list \<Rightarrow> error + (string \<times> ExpoPushReceipt) list) \<Rightarrow> json list list \<Rightarrow> log_entry list" where
  "poll_log getReceipts chunks =
     concat (map (\<lambda>chunk. case getReceipts chunk of
                            Inl e \<Rightarrow> [Console_error e]
                          | Inr receipts \<Rightarrow> Console_log_receipts receipts # receipt_log receipts)
       chunks)"

text \<open>
  What the console receives from a reconciliation, by the cache entry it finds: the error
  that ended the outer \<open>try\<close>, or the log of the polls.
\<close>

definition reconcile_log ::
  "nat \<Rightarrow> (json list \<Rightarrow> error + (string \<times> ExpoPushReceipt) list) \<Rightarrow> cached option
     \<Rightarrow> log_entry list" where
  "reconcile_log rlimit getReceipts c =
     (case JSON_parse c of
        Inl e \<Rightarrow> [Console_error e]
      | Inr parsed \<Rightarrow>
          (case iterate parsed of
             Inl e \<Rightarrow> [Console_error e]
           | Inr tks \<Rightarrow>
               (case collect_receiptIds [] tks of
                  Inl e \<Rightarrow> [Console_error e]
                | Inr receiptIds \<Rightarrow>
                    poll_log getReceipts (chunkPushNotificationReceiptIds rlimit receiptIds))))"



text \<open>
  The Gregorian calendar by its rules: leap years, the lengths of the months, and the
  dates that exist.
\<close>

definition leap_year :: "int \<Rightarrow> bool" where
  "leap_year y = ((y mod 4 = 0 \<and> y mod 100 \<noteq> 0) \<or> y mod 400 = 0)"

definition days_in_month :: "int \<Rightarrow> int \<Rightarrow> int" where
  "days_in_month y m =
     (if m = 2 then (if leap_year y then 29 else 28)
      else if m = 4 \<or> m = 6 \<or> m = 9 \<or> m = 11 then 30 else 31)"

definition valid_date :: "int \<Rightarrow> int \<Rightarrow> int \<Rightarrow> bool" where
  "valid_date y m d = (1 \<le> m \<and> m \<le> 12 \<and> 1 \<le> d \<and> d \<le> days_in_month y m)"

text \<open>
  Names for the parts of the two calendar functions: the days before a year of the
  400-year era (years begin in March), that year's length, the expression from which
  \<open>civil_from_days\<close> takes the year, the index of a month counted from March and the
  day of the year on which a month begins.
\<close>

definition era_day :: "int \<Rightarrow> int" where
  "era_day yoe = 365 * yoe + yoe div 4 - yoe div 100"

definition era_year_length :: "int \<Rightarrow> int" where
  "era_year_length yoe = (if (yoe mod 4 = 3 \<and> yoe mod 100 \<noteq> 99) \<or> yoe = 399 then 366 else 365)"

definition year_estimate :: "int \<Rightarrow> int" where
  "year_estimate doe = doe - doe div 1460 + doe div 36524 - doe div 146096"

definition year_ends_ok :: "int \<Rightarrow> bool" where
  "year_ends_ok k =
     (365 * k \<le> year_estimate (era_day k)
      \<and> year_estimate (era_day k + era_year_length k - 1) < 365 * k + 365)"

definition month_index :: "int \<Rightarrow> int" where
  "month_index m = (if 2 < m then m - 3 else m + 9)"

definition month_start :: "int \<Rightarrow> int" where
  "month_start mp = (153 * mp + 2) div 5"

text \<open>
  The number of a day counted by the calendar's rules, from 1970-01-01 as day 0: 365 days
  for every year since 1970, one more for every leap year among them, the days of the
  months of the year that have passed, and the days of the month that have passed.
  \<open>leap_days_before y\<close> is the number of leap years from year 1 up to \<open>y - 1\<close>.
\<close>

definition leap_days_before :: "int \<Rightarrow> int" where
  "leap_days_before y = (y - 1) div 4 - (y - 1) div 100 + (y - 1) div 400"

definition days_before_month :: "int \<Rightarrow> int \<Rightarrow> int" where
  "days_before_month y m = sum_list (map (days_in_month y) [1..m - 1])"

definition gregorian_day_number :: "int \<Rightarrow> int \<Rightarrow> int \<Rightarrow> int" where
  "gregorian_day_number y m d =
     365 * (y - 1970) + (leap_days_before y - leap_days_before 1970) + days_before_month y m + (d - 1)"

section \<open>A worked scenario\<close>

text \<open>
  New York around the start of daylight saving time in 2024: five hours behind UTC until
  10 March 2024 07:00 UTC (02:00 on the zone's clock), four hours behind from then on.
\<close>

definition new_york_2024 :: tzrule where
  "new_york_2024 =
     \<lparr>to_local = (\<lambda>t. if t < 1710054000000 then t - 18000000 else t - 14400000),
      from_local = (\<lambda>l. if l < 1710036000000 then l + 18000000 else l + 14400000)\<rparr>"

text \<open>
  One user \<open>U\<close> in the zone \<open>+05:30\<close> with push notifications on and the device token
  \<open>tok1\<close>, and two friends: \<open>F\<close>, born on a 11 March, and \<open>G\<close>, born on a
  10 March at 17:45 UTC. The query runs on 10 March 2024 at 08:40 UTC, which is 14:10 on
  the user's clock.
\<close>

definition scenario_tzdb :: "string \<Rightarrow> tzrule option" where
  "scenario_tzdb name =
     (if name = ''UTC'' then Some (fixed_offset 0)
      else if name = ''+05:30'' then Some (fixed_offset 330)
      else if name = ''America/New_York'' then Some new_york_2024
      else None)"

definition scenario_now :: int where
  "scenario_now = 1710060000000"

definition scenario_user :: user_doc where
  "scenario_user = \<lparr>user_id = ''U'', user_email = ''u@example.org''\<rparr>"

definition scenario_profile :: userprofile_doc where
  "scenario_profile =
     \<lparr>profile_user = ''U'', profile_emailNotifications = False, profile_pushNotifications = True,
      profile_timezone = Some ''+05:30''\<rparr>"

definition scenario_friend_F :: friend_doc where
  "scenario_friend_F =
     \<lparr>friend_id = ''F1'', friend_user = ''U'', friend_name = ''F'', friend_dob = 637113600000\<rparr>"

definition scenario_friend_G :: friend_doc where
  "scenario_friend_G =
     \<lparr>friend_id = ''G1'', friend_user = ''U'', friend_name = ''G'', friend_dob = 479324700000\<rparr>"

definition scenario_db :: database where
  "scenario_db =
     \<lparr>users_collection = [scenario_user],
      userprofiles = [scenario_profile],
      friends_collection = [scenario_friend_F, scenario_friend_G],
      notifications = [],
      deviceinfos = [\<lparr>device_userId = ''U'', deviceToken = Some ''tok1''\<rparr>]\<rparr>"

text \<open>The same database with one notification about \<open>F\<close>, sent at the given instant.\<close>

definition scenario_db_notified :: "int \<Rightarrow> database" where
  "scenario_db_notified sent =
     scenario_db\<lparr>notifications :=
       [\<lparr>notification_userId = ''U'', notification_friendId = ''F1'', dateSent = sent\<rparr>]\<rparr>"

text \<open>The same database with a time zone that the server does not know.\<close>

definition scenario_db_unknown_zone :: database where
  "scenario_db_unknown_zone =
     scenario_db\<lparr>userprofiles := [scenario_profile\<lparr>profile_timezone := Some ''Mars/Olympus''\<rparr>]\<rparr>"

text \<open>
  The two documents after the \<open>$addFields\<close> stages: \<open>F\<close>'s birthday is 9 hours and
  50 minutes ahead, \<open>G\<close>'s was this morning on the user's clock, so next year's counts.
\<close>

definition scenario_doc_F :: pipeline_doc where
  "scenario_doc_F =
     \<lparr>root = scenario_user, userProfile = scenario_profile, friends = scenario_friend_F,
      thisYearBirthday = Some 1710095400000, nextYearBirthday = Some 1741631400000,
      upcomingBirthday = Some 1710095400000, hoursUntilBirthday = Some 10,
      recentNotifications = [], device = None\<rparr>"

definition scenario_doc_G :: pipeline_doc where
  "scenario_doc_G =
     \<lparr>root = scenario_user, userProfile = scenario_profile, friends = scenario_friend_G,
      thisYearBirthday = Some 1710009000000, nextYearBirthday = Some 1741545000000,
      upcomingBirthday = Some 1741545000000, hoursUntilBirthday = Some 8746,
      recentNotifications = [], device = None\<rparr>"

text \<open>What the resolver returns for \<open>F\<close>, and two more tuples for the dispatcher.\<close>

definition scenario_item :: IApproachingBirthday where
  "scenario_item =
     \<lparr>userId = ''U'', email = ''u@example.org'', token = Some ''tok1'', friendId = ''F1'',
      friendName = ''F'', hoursUntil = 10, emailNotifications = False, pushNotifications = True\<rparr>"

definition scenario_list :: "IApproachingBirthday list" where
  "scenario_list =
     [scenario_item,
      scenario_item\<lparr>token := None, friendName := ''N''\<rparr>,
      scenario_item\<lparr>friendName := ''H'', hoursUntil := 20\<rparr>,
      scenario_item\<lparr>pushNotifications := False, friendName := ''P''\<rparr>,
      scenario_item\<lparr>friendName := ''I'', hoursUntil := 30\<rparr>]"

definition scenario_world :: world where
  "scenario_world =
     \<lparr>ticketCache = Map.empty, console = [], timers = [], clock = 1710060000000, outbox = [],
      polls = []\<rparr>"

text \<open>A provider that accepts every message and answers with one ticket per message.\<close>

definition scenario_ticket :: "ExpoPushMessage \<Rightarrow> json" where
  "scenario_ticket m = JObj [(''status'', JStr ''ok''), (''id'', JStr (''receipt '' @ body m))]"

definition scenario_send :: "ExpoPushMessage list \<Rightarrow> error + json list" where
  "scenario_send chunk = Inr (map scenario_ticket chunk)"

definition scenario_getReceipts :: "json list \<Rightarrow> error + (string \<times> ExpoPushReceipt) list" where
  "scenario_getReceipts chunk =
     Inr (map (\<lambda>i. (''r'', \<lparr>status = ''ok'', message = [], details = None\<rparr>)) chunk)"

text \<open>A cache that holds one batch, \<open>1\<close>, with one ticket that has a receipt id.\<close>

definition stored_world :: world where
  "stored_world =
     \<lparr>ticketCache = [''1'' \<mapsto> Text (JArr [JObj [(''status'', JStr ''ok''), (''id'', JStr ''r1'')]])],
      console = [], timers = [], clock = 1710060000000, outbox = [], polls = []\<rparr>"

text \<open>A provider that rejects every chunk of two messages and accepts the others.\<close>

definition scenario_send_flaky :: "ExpoPushMessage list \<Rightarrow> error + json list" where
  "scenario_send_flaky chunk =
     (if length chunk = 2 then Inl (ProviderError ''503'') else Inr (map scenario_ticket chunk))"

text \<open>A provider that answers no poll for receipts.\<close>

definition scenario_getReceipts_down :: "json list \<Rightarrow> error + (string \<times> ExpoPushReceipt) list" where
  "scenario_getReceipts_down chunk = Inl (ProviderError ''timeout'')"

text \<open>
  The same user in New York, and the query on 9 March 2024 at 17:00 UTC, noon on the
  user's clock: \<open>F\<close>'s birthday begins 35 hours later, after the clocks have gone
  forward.
\<close>

definition scenario_noon :: int where
  "scenario_noon = 1710003600000"

definition scenario_profile_new_york :: userprofile_doc where
  "scenario_profile_new_york = scenario_profile\<lparr>profile_timezone := Some ''America/New_York''\<rparr>"

definition scenario_db_new_york :: database where
  "scenario_db_new_york = scenario_db\<lparr>userprofiles := [scenario_profile_new_york]\<rparr>"

definition scenario_doc_F_new_york :: pipeline_doc where
  "scenario_doc_F_new_york =
     \<lparr>root = scenario_user, userProfile = scenario_profile_new_york, friends = scenario_friend_F,
      thisYearBirthday = Some 1710129600000, nextYearBirthday = Some 1741665600000,
      upcomingBirthday = Some 1710129600000, hoursUntilBirthday = Some 35,
      recentNotifications = [], device = None\<rparr>"

definition scenario_doc_G_new_york :: pipeline_doc where
  "scenario_doc_G_new_york =
     \<lparr>root = scenario_user, userProfile = scenario_profile_new_york, friends = scenario_friend_G,
      thisYearBirthday = Some 1710046800000, nextYearBirthday = Some 1741579200000,
      upcomingBirthday = Some 1710046800000, hoursUntilBirthday = Some 12,
      recentNotifications = [], device = None\<rparr>"

text \<open>
  The user in the zone \<open>+05:30\<close> with one friend \<open>J\<close>, born on a 1 January, and the
  query on 31 December 2024 at 20:00 UTC, which is 01:30 on 1 January 2025 on the user's
  clock.
\<close>

definition scenario_new_year :: int where
  "scenario_new_year = 1735675200000"

definition scenario_friend_J :: friend_doc where
  "scenario_friend_J =
     \<lparr>friend_id = ''J1'', friend_user = ''U'', friend_name = ''J'', friend_dob = 631152000000\<rparr>"

definition scenario_db_new_year :: database where
  "scenario_db_new_year = scenario_db\<lparr>friends_collection := [scenario_friend_J]\<rparr>"

definition scenario_doc_J :: pipeline_doc where
  "scenario_doc_J =
     \<lparr>root = scenario_user, userProfile = scenario_profile, friends = scenario_friend_J,
      thisYearBirthday = Some 1704047400000, nextYearBirthday = Some 1735669800000,
      upcomingBirthday = Some 1735669800000, hoursUntilBirthday = Some (- 1),
      recentNotifications = [], device = None\<rparr>"

section \<open>Properties of the dispatcher\<close>


lemma chunk_loop_concat: "concat (chunk_loop limit chunk ms) = chunk @ ms"
  by (induction ms arbitrary: chunk) auto

lemma chunk_loop_length:
  "0 < limit \<Longrightarrow> length chunk < limit \<Longrightarrow>
     length (chunk_loop limit chunk ms) = (length chunk + length ms + limit - 1) div limit"
proof (induction ms arbitrary: chunk)
  case Nil
  then show ?case by (cases chunk) (auto simp: div_eq_0_iff Suc_le_eq intro!: sym[OF div_nat_eqI])
next
  case (Cons m ms)
  show ?case
  proof (cases "limit \<le> length (chunk @ [m])")
    case True
    with Cons.prems have eq: "length chunk + 1 = limit" by simp
    have "length (chunk_loop limit [] ms) = (length ms + limit - 1) div limit"
      using Cons.IH[of "[]"] Cons.prems by simp
    moreover have "(length chunk + length (m # ms) + limit - 1) div limit =
                     (length ms + limit - 1) div limit + 1"
    proof -
      have ne: "limit \<noteq> 0" using Cons.prems(1) by simp
      have "length chunk + length (m # ms) + limit - 1 = (length ms + limit - 1) + limit"
        using eq Cons.prems by simp
      then show ?thesis by (simp only: div_add_self2[OF ne])
    qed
    ultimately show ?thesis using True by simp
  next
    case False
    then have "length (chunk @ [m]) < limit" by simp
    from Cons.IH[OF Cons.prems(1) this] False show ?thesis by simp
  qed
qed

lemma send_loop_tickets:
  "fst (send_loop send tks chunk rest w) = tks @ concat (map (ticketChunk_of send) (chunk # rest))"
  by (induction rest arbitrary: tks chunk w) (auto simp: ticketChunk_of_def split: sum.splits)

lemma send_loop_outbox:
  "outbox (snd (send_loop send tks chunk rest w)) = outbox w @ rest"
  by (induction rest arbitrary: tks chunk w) (auto simp: submit_def console_write_def split: sum.splits)

lemma send_loop_ticketCache:
  "ticketCache (snd (send_loop send tks chunk rest w)) = ticketCache w"
  by (induction rest arbitrary: tks chunk w) (auto simp: submit_def console_write_def split: sum.splits)

lemma dispatch_run_eq:
  "dispatch_run limit send list w =
     (Inr \<lparr>tickets = concat (map (ticketChunk_of send)
                (chunkPushNotifications limit (build_messages [] (pushList list)))),
           awaiting = None\<rparr>,
      snd (dispatch_run limit send list w))"
  by (cases "chunkPushNotifications limit (build_messages [] (pushList list))")
     (auto simp: dispatch_run_def sendExpoNotifications_def send_start_def send_resume_def Let_def
        send_loop_tickets case_prod_beta)

lemma dispatch_run_outbox:
  "outbox (snd (dispatch_run limit send list w)) =
     outbox w @ chunkPushNotifications limit (build_messages [] (pushList list))"
  by (cases "chunkPushNotifications limit (build_messages [] (pushList list))")
     (auto simp: dispatch_run_def sendExpoNotifications_def send_start_def send_resume_def Let_def
        send_loop_outbox submit_def ticketCache_set_def setTimeout_def case_prod_beta)

lemma concat_pointwise:
  "\<forall>chunk. send chunk = Inr (map tk chunk) \<Longrightarrow>
     concat (map (ticketChunk_of send) chunks) = map tk (concat chunks)"
  by (induction chunks) (auto simp: ticketChunk_of_def)

text \<open>
  Whatever the list and the provider, the entry written under the batch identifier is the
  serialization of the empty array: the write reads \<open>tickets\<close> while the async block
  is still waiting for its first answer.
\<close>

lemma sendExpoNotifications_cache:
  "ticketCache (snd (sendExpoNotifications limit list w)) (Number_toString (clock w)) =
     Some (JSON_stringify (JArr []))"
  by (cases "chunkPushNotifications limit (build_messages [] (pushList list))")
     (auto simp: sendExpoNotifications_def send_start_def Let_def submit_def ticketCache_set_def
        setTimeout_def)

lemma send_resume_ticketCache:
  "ticketCache (snd (send_resume send act w)) = ticketCache w"
  by (auto simp: send_resume_def send_loop_ticketCache case_prod_beta split: option.splits)

text \<open>
  C1 (the cache entry holds the tickets of the call). The code does otherwise: at the
  scenario's single tuple, with a provider that returns one ticket, the dispatch ends
  with that ticket in \<open>tickets\<close>, while the cache entry written under the batch
  identifier is the serialization of the empty array, and the reconciliation of that batch
  polls nothing.
\<close>

theorem cache_holds_no_ticket:
  "fst (dispatch_run 100 scenario_send [scenario_item] scenario_world) =
     Inr \<lparr>tickets = [JObj [(''status'', JStr ''ok''),
                             (''id'', JStr ''receipt F's birthday is 10 hours away!'')]],
          awaiting = None\<rparr>
   \<and> ticketCache (snd (dispatch_run 100 scenario_send [scenario_item] scenario_world))
        ''1710060000000'' = Some (JSON_stringify (JArr []))
   \<and> polls (snd (handleExpoReceipts 300 scenario_getReceipts ''1710060000000''
        (snd (dispatch_run 100 scenario_send [scenario_item] scenario_world)))) = []"
  by code_simp

text \<open>
  C7 (chunked submission). With a positive chunk size, a dispatch of \<open>N\<close> messages
  submits every chunk of the SDK's partition, in order, whether or not earlier chunks were
  rejected; the partition has \<open>(N + limit - 1) div limit\<close> chunks, which is
  \<open>N / limit\<close> rounded up, and its concatenation is the message list. The tickets
  collected are the answers' tickets in chunk order, so a provider that answers every
  message with its own ticket yields the tickets in message order.
\<close>

theorem chunked_submission:
  assumes "0 < limit"
  shows "fst (dispatch_run limit send list w) =
           Inr \<lparr>tickets = concat (map (ticketChunk_of send)
                   (chunkPushNotifications limit (build_messages [] (pushList list)))),
                awaiting = None\<rparr>
       \<and> outbox (snd (dispatch_run limit send list w)) =
           outbox w @ chunkPushNotifications limit (build_messages [] (pushList list))
       \<and> length (chunkPushNotifications limit (build_messages [] (pushList list))) =
           (length (build_messages [] (pushList list)) + limit - 1) div limit
       \<and> concat (chunkPushNotifications limit (build_messages [] (pushList list))) =
           build_messages [] (pushList list)
       \<and> ((\<forall>chunk. send chunk = Inr (map tk chunk)) \<longrightarrow>
           fst (dispatch_run limit send list w) =
             Inr \<lparr>tickets = map tk (build_messages [] (pushList list)), awaiting = None\<rparr>)"
proof -
  let ?ms = "build_messages [] (pushList list)"
  let ?cs = "chunkPushNotifications limit ?ms"
  have 1: "fst (dispatch_run limit send list w) =
           Inr \<lparr>tickets = concat (map (ticketChunk_of send) ?cs), awaiting = None\<rparr>"
    using dispatch_run_eq[of limit send list w] by (metis fst_conv)
  have 2: "length ?cs = (length ?ms + limit - 1) div limit"
    using chunk_loop_length[OF assms, of "[]" ?ms] assms by (simp add: chunkPushNotifications_def)
  have 3: "concat ?cs = ?ms"
    by (simp add: chunkPushNotifications_def chunk_loop_concat)
  have 4: "(\<forall>chunk. send chunk = Inr (map tk chunk)) \<longrightarrow>
           fst (dispatch_run limit send list w) = Inr \<lparr>tickets = map tk ?ms, awaiting = None\<rparr>"
    using 1 3 concat_pointwise[of send tk ?cs] by simp
  show ?thesis using 1 2 3 4 dispatch_run_outbox[of limit send list w] by blast
qed

text \<open>
  The scenario's five tuples with a chunk size of 2: three messages, two submissions, and
  the three tickets in message order.
\<close>

theorem chunked_submission_witness:
  "(0::nat) < 2
   \<and> length (build_messages [] (pushList scenario_list)) = 3
   \<and> length (outbox (snd (dispatch_run 2 scenario_send scenario_list scenario_world))) = 2
   \<and> fst (dispatch_run 2 scenario_send scenario_list scenario_world) =
       Inr \<lparr>tickets = map scenario_ticket (build_messages [] (pushList scenario_list)),
            awaiting = None\<rparr>"
proof -
  have pos: "(0::nat) < 2" by simp
  have n: "length (build_messages [] (pushList scenario_list)) = 3" by code_simp
  have all: "\<forall>chunk. scenario_send chunk = Inr (map scenario_ticket chunk)"
    by (simp add: scenario_send_def)
  have empty: "outbox scenario_world = []" by (simp add: scenario_world_def)
  note t = chunked_submission[OF pos, of scenario_send scenario_list scenario_world scenario_ticket]
  from t n empty have "length (outbox (snd (dispatch_run 2 scenario_send scenario_list scenario_world))) = 2"
    by simp
  moreover from t all have "fst (dispatch_run 2 scenario_send scenario_list scenario_world) =
       Inr \<lparr>tickets = map scenario_ticket (build_messages [] (pushList scenario_list)),
            awaiting = None\<rparr>"
    by blast
  ultimately show ?thesis using pos n by blast
qed







lemma scenario_messages:
  "build_messages [] (pushList scenario_list) =
     [\<lparr>to = Some ''tok1'', sound = ''default'', body = ''F's birthday is 10 hours away!''\<rparr>,
      \<lparr>to = Some ''tok1'', sound = ''default'', body = ''H's birthday is 20 hours away!''\<rparr>,
      \<lparr>to = Some ''tok1'', sound = ''default'', body = ''I's birthday is 30 hours away!''\<rparr>]"
  by code_simp

section \<open>Properties of the reconciler\<close>

lemma classify_frame:
  "ticketCache (classify receipts w) = ticketCache w \<and> polls (classify receipts w) = polls w"
  by (induction receipts w rule: classify.induct)
     (auto simp: console_write_def Let_def split: option.splits)

lemma poll_loop_polls: "polls (poll_loop getReceipts chunks w) = polls w @ chunks"
  by (induction chunks arbitrary: w)
     (auto simp: classify_frame console_write_def Let_def split: sum.splits)

lemma poll_loop_ticketCache: "ticketCache (poll_loop getReceipts chunks w) = ticketCache w"
  by (induction chunks arbitrary: w)
     (auto simp: classify_frame console_write_def Let_def split: sum.splits)

lemma handle_absent:
  "ticketCache w identifier = None \<Longrightarrow>
     handleExpoReceipts rlimit getReceipts identifier w =
       (Inr (), console_write (Console_error SyntaxError) w)"
  by (simp add: handleExpoReceipts_def handle_body_def ticketCache_get_def)

lemma handle_ticketCache:
  "ticketCache (snd (handleExpoReceipts rlimit getReceipts identifier w)) = ticketCache w"
  by (auto simp: handleExpoReceipts_def handle_body_def poll_loop_ticketCache console_write_def
        split: sum.splits)

lemma handle_polls:
  "polls (snd (handleExpoReceipts rlimit getReceipts identifier w)) =
     polls w @ receipt_chunks rlimit (ticketCache w identifier)"
  by (auto simp: handleExpoReceipts_def handle_body_def poll_loop_polls console_write_def
        receipt_chunks_def ticketCache_get_def split: sum.splits)

lemma send_loop_console:
  "console (snd (send_loop send tks chunk rest w)) = console w @ submission_log send (chunk # rest)"
  by (induction rest arbitrary: tks chunk w)
     (auto simp: submission_log_def submit_def console_write_def split: sum.splits)

lemma sendExpoNotifications_console:
  "console (snd (sendExpoNotifications limit list w)) = console w"
  by (cases "chunkPushNotifications limit (build_messages [] (pushList list))")
     (simp_all add: sendExpoNotifications_def send_start_def Let_def submit_def
        ticketCache_set_def setTimeout_def)

lemma send_resume_console:
  "console (snd (send_resume send act w)) =
     console w @ (case awaiting act of
                    None \<Rightarrow> []
                  | Some (chunk, rest) \<Rightarrow> submission_log send (chunk # rest))"
  by (cases "awaiting act")
     (auto simp: send_resume_def send_loop_console case_prod_beta)

lemma dispatch_run_console:
  "console (snd (dispatch_run limit send list w)) =
     console w @ submission_log send (chunkPushNotifications limit (build_messages [] (pushList list)))"
proof (cases "chunkPushNotifications limit (build_messages [] (pushList list))")
  case Nil
  then show ?thesis
    by (simp add: dispatch_run_def sendExpoNotifications_def send_start_def send_resume_def
          Let_def ticketCache_set_def setTimeout_def submission_log_def)
next
  case (Cons chunk rest)
  then show ?thesis
    by (simp add: dispatch_run_def sendExpoNotifications_def send_start_def send_resume_def
          Let_def send_loop_console submit_def ticketCache_set_def setTimeout_def case_prod_beta)
qed

lemma submission_log_error:
  "chunk \<in> set chunks \<Longrightarrow> send chunk = Inl e \<Longrightarrow> Console_error e \<in> set (submission_log send chunks)"
  by (force simp: submission_log_def image_iff)

lemma classify_console:
  "console (classify receipts w) = console w @ receipt_log receipts"
  by (induction receipts w rule: classify.induct)
     (auto simp: receipt_log_def console_write_def Let_def split: option.splits)

lemma poll_loop_console:
  "console (poll_loop getReceipts chunks w) = console w @ poll_log getReceipts chunks"
  by (induction chunks arbitrary: w)
     (auto simp: poll_log_def classify_console console_write_def Let_def split: sum.splits)

lemma poll_log_error:
  "chunk \<in> set chunks \<Longrightarrow> getReceipts chunk = Inl e
     \<Longrightarrow> Console_error e \<in> set (poll_log getReceipts chunks)"
  by (induction chunks) (auto simp: poll_log_def split: sum.splits)

lemma handle_console:
  "console (snd (handleExpoReceipts rlimit getReceipts identifier w)) =
     console w @ reconcile_log rlimit getReceipts (ticketCache w identifier)"
  by (auto simp: handleExpoReceipts_def handle_body_def reconcile_log_def poll_loop_console
        console_write_def ticketCache_get_def split: sum.splits)

lemma handle_body_error:
  "fst (handle_body rlimit getReceipts identifier w) = Inl e \<Longrightarrow>
     handleExpoReceipts rlimit getReceipts identifier w = (Inr (), console_write (Console_error e) w)"
  by (auto simp: handleExpoReceipts_def handle_body_def split: sum.splits)

lemma reconcile_log_error:
  "chunk \<in> set (receipt_chunks rlimit c) \<Longrightarrow> getReceipts chunk = Inl e
     \<Longrightarrow> Console_error e \<in> set (reconcile_log rlimit getReceipts c)"
  by (auto simp: receipt_chunks_def reconcile_log_def poll_log_error split: sum.splits)

text \<open>
  C2 (no error escapes). The synchronous part of \<open>sendExpoNotifications\<close>, the rest
  of its async block under any provider, and \<open>handleExpoReceipts\<close> under any cache
  content and any provider all end normally, and what they write to the console is
  determined: the synchronous part writes nothing; the async block writes one entry per
  chunk, in the order of the chunks, the provider's error for a chunk it rejected and the
  tickets for a chunk it accepted; \<open>handleExpoReceipts\<close> writes the error that ended
  its body, or else, per chunk of receipt ids, the provider's error or the receipts and
  their error reports. So the error of every rejected chunk, on either side, and every
  error thrown in the body of \<open>handleExpoReceipts\<close> is on the console afterwards; the
  latter is then all the call has done.
\<close>

theorem no_error_escapes:
  "(\<exists>act. fst (sendExpoNotifications limit list w) = Inr act)
   \<and> console (snd (sendExpoNotifications limit list w)) = console w
   \<and> (\<exists>act'. fst (send_resume send act w) = Inr act')
   \<and> console (snd (send_resume send act w)) =
       console w @ (case awaiting act of
                      None \<Rightarrow> []
                    | Some (chunk, rest) \<Rightarrow> submission_log send (chunk # rest))
   \<and> (\<exists>act'. fst (dispatch_run limit send list w) = Inr act')
   \<and> console (snd (dispatch_run limit send list w)) =
       console w @ submission_log send (chunkPushNotifications limit (build_messages [] (pushList list)))
   \<and> (\<forall>chunk e. chunk \<in> set (chunkPushNotifications limit (build_messages [] (pushList list)))
          \<and> send chunk = Inl e
        \<longrightarrow> Console_error e \<in> set (console (snd (dispatch_run limit send list w))))
   \<and> fst (handleExpoReceipts rlimit getReceipts identifier w) = Inr ()
   \<and> console (snd (handleExpoReceipts rlimit getReceipts identifier w)) =
       console w @ reconcile_log rlimit getReceipts (ticketCache w identifier)
   \<and> (\<forall>e. fst (handle_body rlimit getReceipts identifier w) = Inl e
        \<longrightarrow> snd (handleExpoReceipts rlimit getReceipts identifier w) =
              console_write (Console_error e) w)
   \<and> (\<forall>chunk e. chunk \<in> set (receipt_chunks rlimit (ticketCache w identifier))
          \<and> getReceipts chunk = Inl e
        \<longrightarrow> Console_error e \<in> set (console (snd (handleExpoReceipts rlimit getReceipts identifier w))))"
proof -
  have 1: "\<exists>act. fst (sendExpoNotifications limit list w) = Inr act"
    by (simp add: sendExpoNotifications_def Let_def case_prod_beta)
  have 2: "\<exists>act'. fst (send_resume send act w) = Inr act'"
    by (cases "awaiting act") (auto simp: send_resume_def case_prod_beta)
  have 3: "\<exists>act'. fst (dispatch_run limit send list w) = Inr act'"
    by (subst dispatch_run_eq) simp
  have 4: "Console_error e \<in> set (console (snd (dispatch_run limit send list w)))"
    if "chunk \<in> set (chunkPushNotifications limit (build_messages [] (pushList list)))"
      and "send chunk = Inl e" for chunk e
    using that by (simp add: dispatch_run_console submission_log_error)
  have 5: "fst (handleExpoReceipts rlimit getReceipts identifier w) = Inr ()"
    by (auto simp: handleExpoReceipts_def split: prod.splits sum.splits)
  have 6: "snd (handleExpoReceipts rlimit getReceipts identifier w) =
              console_write (Console_error e) w"
    if "fst (handle_body rlimit getReceipts identifier w) = Inl e" for e
    using handle_body_error[OF that] by simp
  have 7: "Console_error e \<in> set (console (snd (handleExpoReceipts rlimit getReceipts identifier w)))"
    if "chunk \<in> set (receipt_chunks rlimit (ticketCache w identifier))"
      and "getReceipts chunk = Inl e" for chunk e
    using that by (simp add: handle_console reconcile_log_error)
  show ?thesis
    using 1 2 3 4 5 6 7 sendExpoNotifications_console send_resume_console dispatch_run_console
      handle_console
    by blast
qed

text \<open>
  A provider that rejects the first of two chunks: the dispatch ends normally, with
  the rejection and then the tickets of the second chunk on the console. And a provider
  that answers no poll: the reconciliation of batch \<open>1\<close> ends normally, with the
  rejection on the console; that of batch \<open>2\<close>, which the cache does not hold, with the
  parse error.
\<close>

theorem no_error_escapes_witness:
  "chunkPushNotifications 2 (build_messages [] (pushList scenario_list)) =
     [[\<lparr>to = Some ''tok1'', sound = ''default'', body = ''F's birthday is 10 hours away!''\<rparr>,
       \<lparr>to = Some ''tok1'', sound = ''default'', body = ''H's birthday is 20 hours away!''\<rparr>],
      [\<lparr>to = Some ''tok1'', sound = ''default'', body = ''I's birthday is 30 hours away!''\<rparr>]]
   \<and> scenario_send_flaky
       [\<lparr>to = Some ''tok1'', sound = ''default'', body = ''F's birthday is 10 hours away!''\<rparr>,
        \<lparr>to = Some ''tok1'', sound = ''default'', body = ''H's birthday is 20 hours away!''\<rparr>] =
       Inl (ProviderError ''503'')
   \<and> console (snd (dispatch_run 2 scenario_send_flaky scenario_list scenario_world)) =
       [Console_error (ProviderError ''503''),
        Console_log_tickets
          [JObj [(''status'', JStr ''ok''), (''id'', JStr ''receipt I's birthday is 30 hours away!'')]]]
   \<and> Console_error (ProviderError ''503'')
       \<in> set (console (snd (dispatch_run 2 scenario_send_flaky scenario_list scenario_world)))
   \<and> receipt_chunks 300 (ticketCache stored_world ''1'') = [[JStr ''r1'']]
   \<and> scenario_getReceipts_down [JStr ''r1''] = Inl (ProviderError ''timeout'')
   \<and> console (snd (handleExpoReceipts 300 scenario_getReceipts_down ''1'' stored_world)) =
       [Console_error (ProviderError ''timeout'')]
   \<and> Console_error (ProviderError ''timeout'')
       \<in> set (console (snd (handleExpoReceipts 300 scenario_getReceipts_down ''1'' stored_world)))
   \<and> fst (handle_body 300 scenario_getReceipts_down ''2'' stored_world) = Inl SyntaxError
   \<and> snd (handleExpoReceipts 300 scenario_getReceipts_down ''2'' stored_world) =
       console_write (Console_error SyntaxError) stored_world"
proof -
  let ?FH = "[\<lparr>to = Some ''tok1'', sound = ''default'', body = ''F's birthday is 10 hours away!''\<rparr>,
       \<lparr>to = Some ''tok1'', sound = ''default'', body = ''H's birthday is 20 hours away!''\<rparr>]"
  let ?I = "[\<lparr>to = Some ''tok1'', sound = ''default'', body = ''I's birthday is 30 hours away!''\<rparr>]"
  have chunks: "chunkPushNotifications 2 (build_messages [] (pushList scenario_list)) = [?FH, ?I]"
    by code_simp
  have rej: "scenario_send_flaky ?FH = Inl (ProviderError ''503'')"
    by (simp add: scenario_send_flaky_def)
  have acc: "scenario_send_flaky ?I =
      Inr [JObj [(''status'', JStr ''ok''), (''id'', JStr ''receipt I's birthday is 30 hours away!'')]]"
    by (simp add: scenario_send_flaky_def scenario_ticket_def)
  have empty: "console scenario_world = []" "console stored_world = []"
    by (simp_all add: scenario_world_def stored_world_def)
  have rchunks: "receipt_chunks 300 (ticketCache stored_world ''1'') = [[JStr ''r1'']]"
    by code_simp
  have down: "scenario_getReceipts_down [JStr ''r1''] = Inl (ProviderError ''timeout'')"
    by (simp add: scenario_getReceipts_down_def)
  have body2: "fst (handle_body 300 scenario_getReceipts_down ''2'' stored_world) = Inl SyntaxError"
    by code_simp
  note all = no_error_escapes[of 2 scenario_list scenario_world scenario_send_flaky
      "\<lparr>tickets = [], awaiting = None\<rparr>" 300 scenario_getReceipts_down "''1''"]
  note all2 = no_error_escapes[of 2 scenario_list stored_world scenario_send_flaky
      "\<lparr>tickets = [], awaiting = None\<rparr>" 300 scenario_getReceipts_down "''2''"]
  from all have "console (snd (dispatch_run 2 scenario_send_flaky scenario_list scenario_world)) =
       console scenario_world @ submission_log scenario_send_flaky
         (chunkPushNotifications 2 (build_messages [] (pushList scenario_list)))"
    by blast
  then have c1: "console (snd (dispatch_run 2 scenario_send_flaky scenario_list scenario_world)) =
       [Console_error (ProviderError ''503''),
        Console_log_tickets
          [JObj [(''status'', JStr ''ok''), (''id'', JStr ''receipt I's birthday is 30 hours away!'')]]]"
    unfolding chunks by (simp add: empty submission_log_def rej acc)
  from all chunks rej
  have c2: "Console_error (ProviderError ''503'')
       \<in> set (console (snd (dispatch_run 2 scenario_send_flaky scenario_list scenario_world)))"
    by (metis list.set_intros(1))
  have "chunk \<in> set (receipt_chunks 300 (ticketCache stored_world ''1''))
          \<and> scenario_getReceipts_down chunk = Inl e
        \<longrightarrow> Console_error e \<in> set (console (snd (handleExpoReceipts 300 scenario_getReceipts_down ''1'' stored_world)))"
    for chunk e
    using no_error_escapes[of 2 scenario_list stored_world scenario_send_flaky
      "\<lparr>tickets = [], awaiting = None\<rparr>" 300 scenario_getReceipts_down "''1''"]
    by blast
  from this[of "[JStr ''r1'']" "ProviderError ''timeout''"] rchunks down
  have c3mem: "Console_error (ProviderError ''timeout'')
       \<in> set (console (snd (handleExpoReceipts 300 scenario_getReceipts_down ''1'' stored_world)))"
    by simp
  have c3: "console (snd (handleExpoReceipts 300 scenario_getReceipts_down ''1'' stored_world)) =
       [Console_error (ProviderError ''timeout'')]"
    by code_simp
  from all2 body2
  have c4: "snd (handleExpoReceipts 300 scenario_getReceipts_down ''2'' stored_world) =
       console_write (Console_error SyntaxError) stored_world"
    by blast
  show ?thesis using chunks rej c1 c2 rchunks down c3 c3mem body2 c4 by blast
qed

text \<open>
  C3, as stated, fails twice. Reconciling an identifier that the cache does not hold
  is not silent: the parse error of the missing entry is written to the console. And an
  identifier that was reconciled once is still in the cache: reconciling batch \<open>1\<close> a
  second time polls its receipt again.
\<close>

theorem reconcile_not_silent_not_once:
  "console (snd (handleExpoReceipts 300 scenario_getReceipts ''2'' stored_world)) =
     [Console_error SyntaxError]
   \<and> polls (snd (handleExpoReceipts 300 scenario_getReceipts ''1'' stored_world)) = [[JStr ''r1'']]
   \<and> polls (snd (handleExpoReceipts 300 scenario_getReceipts ''1''
        (snd (handleExpoReceipts 300 scenario_getReceipts ''1'' stored_world)))) =
       [[JStr ''r1''], [JStr ''r1'']]"
  by code_simp

text \<open>
  C3, amended. For an identifier that the cache does not hold, \<open>handleExpoReceipts\<close>
  returns normally, polls nothing and leaves the cache as it is; its one effect is the
  caught parse error on the console. It never changes the cache, whatever the identifier,
  so a second reconciliation of the same identifier polls the same chunks again.
\<close>

theorem reconcile_absent_or_repeated:
  "(ticketCache w identifier = None \<longrightarrow>
      handleExpoReceipts rlimit getReceipts identifier w =
        (Inr (), w\<lparr>console := console w @ [Console_error SyntaxError]\<rparr>))
   \<and> ticketCache (snd (handleExpoReceipts rlimit getReceipts identifier w)) = ticketCache w
   \<and> polls (snd (handleExpoReceipts rlimit getReceipts identifier w)) =
       polls w @ receipt_chunks rlimit (ticketCache w identifier)
   \<and> polls (snd (handleExpoReceipts rlimit getReceipts identifier
               (snd (handleExpoReceipts rlimit getReceipts identifier w)))) =
       polls w @ receipt_chunks rlimit (ticketCache w identifier)
         @ receipt_chunks rlimit (ticketCache w identifier)"
  by (simp add: handle_absent handle_polls handle_ticketCache console_write_def)

theorem reconcile_absent_or_repeated_witness:
  "ticketCache stored_world ''2'' = None
   \<and> fst (handleExpoReceipts 300 scenario_getReceipts ''2'' stored_world) = Inr ()
   \<and> polls (snd (handleExpoReceipts 300 scenario_getReceipts ''2'' stored_world)) = []
   \<and> console (snd (handleExpoReceipts 300 scenario_getReceipts ''2'' stored_world)) =
       [Console_error SyntaxError]
   \<and> ticketCache (snd (handleExpoReceipts 300 scenario_getReceipts ''2'' stored_world)) =
       ticketCache stored_world"
proof -
  have absent: "ticketCache stored_world ''2'' = None" by (simp add: stored_world_def)
  have fields: "polls stored_world = []" "console stored_world = []"
    by (simp_all add: stored_world_def)
  from reconcile_absent_or_repeated[of stored_world "''2''" 300 scenario_getReceipts] absent
  have "handleExpoReceipts 300 scenario_getReceipts ''2'' stored_world =
          (Inr (), stored_world\<lparr>console := console stored_world @ [Console_error SyntaxError]\<rparr>)"
    by blast
  then show ?thesis using absent fields by simp
qed

section \<open>Properties of the resolver\<close>

lemma each_result_mem:
  "each f xs = Inr ys \<Longrightarrow> y \<in> set ys \<Longrightarrow> \<exists>x\<in>set xs. f x = Inr y"
  by (induction xs arbitrary: ys) (auto split: sum.splits)

lemma candidates_docs:
  assumes "candidates tzdb db now = Inr ds"
  shows "\<exists>docs1 docs2.
           each (addFields_thisYearBirthday tzdb now)
             (lookup_unwind_friends db (match_notifications_enabled (lookup_unwind_userProfile db))) = Inr docs1
         \<and> each (addFields_nextYearBirthday tzdb now) docs1 = Inr docs2
         \<and> each (addFields_hoursUntilBirthday tzdb now) (map (addFields_upcomingBirthday now) docs2) = Inr ds"
  using assms by (auto simp: candidates_def and_then_def split: sum.splits)

text \<open>What the four \<open>$addFields\<close> stages have written into a document that left them.\<close>

lemma candidate_fields:
  assumes "candidates tzdb db now = Inr ds" and "d \<in> set ds"
  shows "dateFromParts tzdb (year_of now) (month_of (friend_dob (friends d)))
           (dayOfMonth_of (friend_dob (friends d))) (profile_timezone (userProfile d))
           = Inr (thisYearBirthday d)
       \<and> dateFromParts tzdb (year_of now + 1) (month_of (friend_dob (friends d)))
           (dayOfMonth_of (friend_dob (friends d))) (profile_timezone (userProfile d))
           = Inr (nextYearBirthday d)
       \<and> upcomingBirthday d =
           (if bson_lt (thisYearBirthday d) now then nextYearBirthday d else thisYearBirthday d)
       \<and> dateDiff_hour tzdb now (upcomingBirthday d) (profile_timezone (userProfile d))
           = Inr (hoursUntilBirthday d)"
proof -
  from candidates_docs[OF assms(1)] obtain docs1 docs2 where
    e1: "each (addFields_thisYearBirthday tzdb now)
           (lookup_unwind_friends db (match_notifications_enabled (lookup_unwind_userProfile db))) = Inr docs1"
    and e2: "each (addFields_nextYearBirthday tzdb now) docs1 = Inr docs2"
    and e3: "each (addFields_hoursUntilBirthday tzdb now) (map (addFields_upcomingBirthday now) docs2) = Inr ds"
    by blast
  from each_result_mem[OF e3 assms(2)] obtain d2 where
    d2: "d2 \<in> set docs2"
    and h3: "addFields_hoursUntilBirthday tzdb now (addFields_upcomingBirthday now d2) = Inr d"
    by auto
  from each_result_mem[OF e2 d2] obtain d1 where
    d1: "d1 \<in> set docs1" and h2: "addFields_nextYearBirthday tzdb now d1 = Inr d2"
    by auto
  from each_result_mem[OF e1 d1] obtain d0 where
    h1: "addFields_thisYearBirthday tzdb now d0 = Inr d1"
    by auto
  from h1 h2 h3 show ?thesis
    by (auto simp: addFields_thisYearBirthday_def addFields_nextYearBirthday_def
          addFields_hoursUntilBirthday_def addFields_upcomingBirthday_def split: sum.splits)
qed

lemma timezone_rule:
  assumes "dateFromParts tzdb y m dd (Some name) = Inr v"
  shows "\<exists>rule. tzdb name = Some rule \<and> v = Some (from_local rule (days_from_civil y m dd * 86400000))"
  using assms by (auto simp: dateFromParts_def split: option.splits if_splits)

text \<open>The same for a user with a time zone, in terms of the birthday's occurrences.\<close>

lemma candidate_occurrences:
  assumes "candidates tzdb db now = Inr ds" and "d \<in> set ds"
    and tz: "profile_timezone (userProfile d) = Some name"
  shows "\<exists>rule. tzdb name = Some rule
              \<and> thisYearBirthday d = Some (occurrence rule (year_of now) (friend_dob (friends d)))
              \<and> nextYearBirthday d = Some (occurrence rule (year_of now + 1) (friend_dob (friends d)))
              \<and> (occurrence rule (year_of now) (friend_dob (friends d)) < now \<longrightarrow>
                   upcomingBirthday d = Some (occurrence rule (year_of now + 1) (friend_dob (friends d)))
                 \<and> hoursUntilBirthday d =
                     Some (hours_between rule now (occurrence rule (year_of now + 1) (friend_dob (friends d)))))
              \<and> (\<not> occurrence rule (year_of now) (friend_dob (friends d)) < now \<longrightarrow>
                   upcomingBirthday d = Some (occurrence rule (year_of now) (friend_dob (friends d)))
                 \<and> hoursUntilBirthday d =
                     Some (hours_between rule now (occurrence rule (year_of now) (friend_dob (friends d)))))"
proof -
  note f = candidate_fields[OF assms(1,2)]
  from f tz obtain rule where rule: "tzdb name = Some rule"
    and this_y: "thisYearBirthday d = Some (occurrence rule (year_of now) (friend_dob (friends d)))"
    by (auto simp: occurrence_def dest: timezone_rule)
  from f tz rule have next_y:
    "nextYearBirthday d = Some (occurrence rule (year_of now + 1) (friend_dob (friends d)))"
    by (auto simp: occurrence_def dest: timezone_rule)
  from f have up: "upcomingBirthday d =
         (if bson_lt (thisYearBirthday d) now then nextYearBirthday d else thisYearBirthday d)"
    by blast
  from f have diff: "dateDiff_hour tzdb now (upcomingBirthday d) (profile_timezone (userProfile d))
         = Inr (hoursUntilBirthday d)"
    by blast
  show ?thesis
    using rule this_y next_y up diff tz
    by (auto simp: bson_lt_def dateDiff_hour_def)
qed

lemma aggregate_resolved:
  "candidates tzdb db now = Inr ds \<Longrightarrow>
     aggregate tzdb db now cutoffHours thr = Inr (resolved db cutoffHours thr ds)"
  by (simp add: aggregate_def and_then_def resolved_def)

lemma getApproachingBirthdays_resolved:
  "candidates tzdb db now = Inr ds \<Longrightarrow>
     getApproachingBirthdays tzdb (Inr db) now cutoffHours clearance =
       (resolved db cutoffHours (now - clearance * 3600000) ds, [])"
  by (simp add: getApproachingBirthdays_def and_then_def aggregate_resolved)

lemma match_cutoff_mem:
  "d \<in> set (match_cutoff cutoffHours ds) \<longleftrightarrow>
     d \<in> set ds \<and> (\<exists>h. hoursUntilBirthday d = Some h \<and> h \<le> cutoffHours)"
  by (auto simp: match_cutoff_def split: option.splits)

text \<open>No document leaves the cutoff stage with a null \<open>hoursUntilBirthday\<close>.\<close>

lemma match_cutoff_hours:
  "d \<in> set (match_cutoff cutoffHours ds) \<Longrightarrow> hoursUntilBirthday d \<noteq> None"
  by (auto simp: match_cutoff_mem)

lemma no_recent_iff:
  "recentNotifications (lookup_recentNotifications db thr d) = [] \<longleftrightarrow>
     \<not> recently_notified db thr d"
  by (auto simp: lookup_recentNotifications_def recently_notified_def filter_empty_conv)

lemma device_stage_origin:
  assumes "d' \<in> set (lookup_unwind_device db docs)"
  shows "\<exists>d\<in>set docs. \<exists>dev. d' = d\<lparr>device := dev\<rparr>"
proof -
  from assms obtain d where d: "d \<in> set docs"
    and d': "d' \<in> set (case filter (\<lambda>v. device_userId v = user_id (root d)) (deviceinfos db) of
                         [] \<Rightarrow> [d\<lparr>device := None\<rparr>]
                       | v # vs \<Rightarrow> map (\<lambda>v'. d\<lparr>device := Some v'\<rparr>) (v # vs))"
    by (auto simp: lookup_unwind_device_def)
  from d' have "\<exists>dev. d' = d\<lparr>device := dev\<rparr>"
    by (cases "filter (\<lambda>v. device_userId v = user_id (root d)) (deviceinfos db)") auto
  with d show ?thesis by blast
qed

lemma device_stage_exists:
  assumes d: "d \<in> set docs"
  shows "\<exists>dev. d\<lparr>device := dev\<rparr> \<in> set (lookup_unwind_device db docs)"
proof (cases "filter (\<lambda>v. device_userId v = user_id (root d)) (deviceinfos db)")
  case Nil
  with d have "d\<lparr>device := None\<rparr> \<in> set (lookup_unwind_device db docs)"
    by (force simp: lookup_unwind_device_def)
  then show ?thesis ..
next
  case (Cons v vs)
  with d have "d\<lparr>device := Some v\<rparr> \<in> set (lookup_unwind_device db docs)"
    by (force simp: lookup_unwind_device_def)
  then show ?thesis ..
qed

text \<open>Every returned tuple comes from a document that passed both filters.\<close>

lemma resolved_origin:
  assumes "r \<in> set (resolved db cutoffHours thr ds)"
  shows "\<exists>d\<in>set ds. \<exists>h. hoursUntilBirthday d = Some h \<and> h \<le> cutoffHours
           \<and> \<not> recently_notified db thr d
           \<and> userId r = profile_user (userProfile d) \<and> friendId r = friend_id (friends d)
           \<and> friendName r = friend_name (friends d) \<and> hoursUntil r = h"
proof -
  from assms obtain d' where
    d': "d' \<in> set (lookup_unwind_device db (match_no_recentNotifications
            (map (lookup_recentNotifications db thr) (match_cutoff cutoffHours ds))))"
    and r: "r = project d'"
    by (auto simp: resolved_def)
  from device_stage_origin[OF d'] obtain d1 dev where
    d1: "d1 \<in> set (match_no_recentNotifications
            (map (lookup_recentNotifications db thr) (match_cutoff cutoffHours ds)))"
    and d'_eq: "d' = d1\<lparr>device := dev\<rparr>"
    by blast
  from d1 obtain d where
    d: "d \<in> set (match_cutoff cutoffHours ds)"
    and d1_eq: "d1 = lookup_recentNotifications db thr d"
    and none: "recentNotifications (lookup_recentNotifications db thr d) = []"
    by (auto simp: match_no_recentNotifications_def)
  from d obtain h where h: "d \<in> set ds" "hoursUntilBirthday d = Some h" "h \<le> cutoffHours"
    by (auto simp: match_cutoff_mem)
  from none have "\<not> recently_notified db thr d" by (simp add: no_recent_iff)
  moreover have "userId r = profile_user (userProfile d)" "friendId r = friend_id (friends d)"
    "friendName r = friend_name (friends d)" "hoursUntil r = h"
    using r d'_eq d1_eq h(2) by (simp_all add: project_def lookup_recentNotifications_def)
  ultimately show ?thesis using h by blast
qed

text \<open>Every document that passes both filters has a tuple among those returned.\<close>

lemma resolved_exists:
  assumes "d \<in> set ds" and "hoursUntilBirthday d = Some h" and "h \<le> cutoffHours"
    and "\<not> recently_notified db thr d"
  shows "\<exists>r\<in>set (resolved db cutoffHours thr ds).
           userId r = profile_user (userProfile d) \<and> friendId r = friend_id (friends d)
         \<and> friendName r = friend_name (friends d) \<and> hoursUntil r = h"
proof -
  let ?d1 = "lookup_recentNotifications db thr d"
  have "d \<in> set (match_cutoff cutoffHours ds)"
    using assms(1-3) by (simp add: match_cutoff_mem)
  moreover have "recentNotifications ?d1 = []"
    using assms(4) by (simp add: no_recent_iff)
  ultimately have "?d1 \<in> set (match_no_recentNotifications
              (map (lookup_recentNotifications db thr) (match_cutoff cutoffHours ds)))"
    by (simp add: match_no_recentNotifications_def)
  from device_stage_exists[OF this, of db] obtain dev where
    "?d1\<lparr>device := dev\<rparr>
       \<in> set (lookup_unwind_device db (match_no_recentNotifications
              (map (lookup_recentNotifications db thr) (match_cutoff cutoffHours ds))))"
    by blast
  then have "project (?d1\<lparr>device := dev\<rparr>) \<in> set (resolved db cutoffHours thr ds)"
    by (simp add: resolved_def)
  moreover have "userId (project (?d1\<lparr>device := dev\<rparr>)) = profile_user (userProfile d)"
    "friendId (project (?d1\<lparr>device := dev\<rparr>)) = friend_id (friends d)"
    "friendName (project (?d1\<lparr>device := dev\<rparr>)) = friend_name (friends d)"
    "hoursUntil (project (?d1\<lparr>device := dev\<rparr>)) = h"
    using assms(2) by (simp_all add: project_def lookup_recentNotifications_def)
  ultimately show ?thesis by blast
qed

lemma scenario_candidates:
  "candidates scenario_tzdb scenario_db scenario_now = Inr [scenario_doc_F, scenario_doc_G]"
  by code_simp

lemma scenario_resolved:
  "getApproachingBirthdays scenario_tzdb (Inr scenario_db) scenario_now 96 24 = ([scenario_item], [])"
  by code_simp

text \<open>
  C4 (the cutoff is inclusive). For a document \<open>d\<close> that reaches the cutoff stage of
  a query that succeeds: with \<open>hoursUntilBirthday\<close> equal to \<open>cutoffHours\<close> it passes
  the stage, and unless a recent notification suppresses it, a tuple for its user and
  friend with that \<open>hoursUntil\<close> is returned; with \<open>cutoffHours + 1\<close> it does not pass,
  and no returned tuple has an \<open>hoursUntil\<close> above \<open>cutoffHours\<close>.
\<close>

theorem cutoff_boundary_inclusive:
  assumes "candidates tzdb db now = Inr ds" and "d \<in> set ds"
  shows "(hoursUntilBirthday d = Some cutoffHours \<longrightarrow> d \<in> set (match_cutoff cutoffHours ds))
       \<and> (hoursUntilBirthday d = Some (cutoffHours + 1) \<longrightarrow> d \<notin> set (match_cutoff cutoffHours ds))
       \<and> (hoursUntilBirthday d = Some cutoffHours
            \<and> \<not> recently_notified db (now - clearance * 3600000) d \<longrightarrow>
            (\<exists>r\<in>set (fst (getApproachingBirthdays tzdb (Inr db) now cutoffHours clearance)).
               userId r = profile_user (userProfile d) \<and> friendId r = friend_id (friends d)
             \<and> hoursUntil r = cutoffHours))
       \<and> (\<forall>r\<in>set (fst (getApproachingBirthdays tzdb (Inr db) now cutoffHours clearance)).
            hoursUntil r \<le> cutoffHours)"
proof -
  let ?thr = "now - clearance * 3600000"
  have res: "fst (getApproachingBirthdays tzdb (Inr db) now cutoffHours clearance) =
               resolved db cutoffHours ?thr ds"
    by (simp add: getApproachingBirthdays_resolved[OF assms(1)])
  have 1: "hoursUntilBirthday d = Some cutoffHours \<longrightarrow> d \<in> set (match_cutoff cutoffHours ds)"
    using assms(2) by (simp add: match_cutoff_mem)
  have 2: "hoursUntilBirthday d = Some (cutoffHours + 1) \<longrightarrow> d \<notin> set (match_cutoff cutoffHours ds)"
    by (simp add: match_cutoff_mem)
  have 3: "hoursUntilBirthday d = Some cutoffHours \<and> \<not> recently_notified db ?thr d \<longrightarrow>
            (\<exists>r\<in>set (resolved db cutoffHours ?thr ds).
               userId r = profile_user (userProfile d) \<and> friendId r = friend_id (friends d)
             \<and> hoursUntil r = cutoffHours)"
    using resolved_exists[OF assms(2), of cutoffHours cutoffHours db ?thr] by blast
  have 4: "\<forall>r\<in>set (resolved db cutoffHours ?thr ds). hoursUntil r \<le> cutoffHours"
    using resolved_origin[of _ db cutoffHours ?thr ds] by blast
  show ?thesis using 1 2 3 4 unfolding res by blast
qed

text \<open>
  In the scenario \<open>F\<close>'s birthday is 10 hours away: with a cutoff of 10 hours the tuple
  is returned, with a cutoff of 9 hours the document does not pass the stage.
\<close>

theorem cutoff_boundary_inclusive_witness:
  "candidates scenario_tzdb scenario_db scenario_now = Inr [scenario_doc_F, scenario_doc_G]
   \<and> scenario_doc_F \<in> set [scenario_doc_F, scenario_doc_G]
   \<and> hoursUntilBirthday scenario_doc_F = Some 10
   \<and> scenario_doc_F \<in> set (match_cutoff 10 [scenario_doc_F, scenario_doc_G])
   \<and> scenario_doc_F \<notin> set (match_cutoff 9 [scenario_doc_F, scenario_doc_G])
   \<and> (\<exists>r\<in>set (fst (getApproachingBirthdays scenario_tzdb (Inr scenario_db) scenario_now 10 24)).
         userId r = ''U'' \<and> friendId r = ''F1'' \<and> hoursUntil r = 10)"
proof -
  have c: "candidates scenario_tzdb scenario_db scenario_now = Inr [scenario_doc_F, scenario_doc_G]"
    by (rule scenario_candidates)
  have m: "scenario_doc_F \<in> set [scenario_doc_F, scenario_doc_G]" by simp
  have hh: "hoursUntilBirthday scenario_doc_F = Some 10" by (simp add: scenario_doc_F_def)
  have hh': "hoursUntilBirthday scenario_doc_F = Some (9 + 1)" by (simp add: scenario_doc_F_def)
  have nr: "\<not> recently_notified scenario_db (scenario_now - 24 * 3600000) scenario_doc_F"
    by (simp add: recently_notified_def scenario_db_def)
  have ids: "profile_user (userProfile scenario_doc_F) = ''U''"
    "friend_id (friends scenario_doc_F) = ''F1''"
    by (simp_all add: scenario_doc_F_def scenario_profile_def scenario_friend_F_def)
  note at10 = cutoff_boundary_inclusive[OF c m, of 10 24]
  note at9 = cutoff_boundary_inclusive[OF c m, of 9 24]
  from at10 hh have 1: "scenario_doc_F \<in> set (match_cutoff 10 [scenario_doc_F, scenario_doc_G])"
    by blast
  from at9 hh' have 2: "scenario_doc_F \<notin> set (match_cutoff 9 [scenario_doc_F, scenario_doc_G])"
    by blast
  from at10 hh nr have
    "\<exists>r\<in>set (fst (getApproachingBirthdays scenario_tzdb (Inr scenario_db) scenario_now 10 24)).
         userId r = profile_user (userProfile scenario_doc_F)
       \<and> friendId r = friend_id (friends scenario_doc_F) \<and> hoursUntil r = 10"
    by blast
  then have 3:
    "\<exists>r\<in>set (fst (getApproachingBirthdays scenario_tzdb (Inr scenario_db) scenario_now 10 24)).
         userId r = ''U'' \<and> friendId r = ''F1'' \<and> hoursUntil r = 10"
    by (simp only: ids)
  show ?thesis using c m hh 1 2 3 by blast
qed

text \<open>
  C5 (the clearance check is exclusive). For a document \<open>d\<close> that passed the cutoff
  stage of a query that succeeds, a tuple for its user and friend is returned exactly if
  no notification for that user and friend has \<open>dateSent\<close> strictly after
  \<open>now - clearance * 3600000\<close> (hours in milliseconds). So a notification sent one
  minute (60000 ms) after that instant excludes the pair, and if every notification for the
  pair was sent one minute before it, the pair is returned.
\<close>

theorem clearance_boundary_exclusive:
  assumes "candidates tzdb db now = Inr ds" and "d \<in> set (match_cutoff cutoffHours ds)"
  shows "((\<exists>r\<in>set (fst (getApproachingBirthdays tzdb (Inr db) now cutoffHours clearance)).
             userId r = profile_user (userProfile d) \<and> friendId r = friend_id (friends d))
          \<longleftrightarrow> \<not> (\<exists>n\<in>set (notifications db).
                    notification_userId n = profile_user (userProfile d)
                  \<and> notification_friendId n = friend_id (friends d)
                  \<and> now - clearance * 3600000 < dateSent n))
       \<and> (n \<in> set (notifications db)
            \<and> notification_userId n = profile_user (userProfile d)
            \<and> notification_friendId n = friend_id (friends d)
            \<and> dateSent n = now - clearance * 3600000 + 60000 \<longrightarrow>
          \<not> (\<exists>r\<in>set (fst (getApproachingBirthdays tzdb (Inr db) now cutoffHours clearance)).
                userId r = profile_user (userProfile d) \<and> friendId r = friend_id (friends d)))
       \<and> ((\<forall>n\<in>set (notifications db).
              notification_userId n = profile_user (userProfile d)
            \<and> notification_friendId n = friend_id (friends d)
            \<longrightarrow> dateSent n = now - clearance * 3600000 - 60000) \<longrightarrow>
          (\<exists>r\<in>set (fst (getApproachingBirthdays tzdb (Inr db) now cutoffHours clearance)).
                userId r = profile_user (userProfile d) \<and> friendId r = friend_id (friends d)))"
proof -
  let ?thr = "now - clearance * 3600000"
  let ?in_result = "\<exists>r\<in>set (fst (getApproachingBirthdays tzdb (Inr db) now cutoffHours clearance)).
             userId r = profile_user (userProfile d) \<and> friendId r = friend_id (friends d)"
  have res: "fst (getApproachingBirthdays tzdb (Inr db) now cutoffHours clearance) =
               resolved db cutoffHours ?thr ds"
    by (simp add: getApproachingBirthdays_resolved[OF assms(1)])
  from assms(2) obtain h where h: "d \<in> set ds" "hoursUntilBirthday d = Some h" "h \<le> cutoffHours"
    by (auto simp: match_cutoff_mem)
  have main: "?in_result \<longleftrightarrow> \<not> recently_notified db ?thr d"
  proof
    assume ?in_result
    then obtain r where r: "r \<in> set (resolved db cutoffHours ?thr ds)"
      "userId r = profile_user (userProfile d)" "friendId r = friend_id (friends d)"
      unfolding res by blast
    from resolved_origin[OF r(1)] obtain d2 where
      "\<not> recently_notified db ?thr d2" "userId r = profile_user (userProfile d2)"
      "friendId r = friend_id (friends d2)"
      by blast
    with r(2,3) show "\<not> recently_notified db ?thr d"
      by (simp add: recently_notified_def)
  next
    assume "\<not> recently_notified db ?thr d"
    from resolved_exists[OF h this] show ?in_result
      unfolding res by blast
  qed
  show ?thesis
    unfolding main by (auto simp: recently_notified_def)
qed

text \<open>
  In the scenario the clearance instant is 1709973600000. A notification about \<open>F\<close>
  sent a minute later keeps \<open>F\<close> out of the result; one sent a minute earlier does not.
\<close>

theorem clearance_boundary_exclusive_witness:
  "candidates scenario_tzdb (scenario_db_notified 1709973660000) scenario_now =
     Inr [scenario_doc_F, scenario_doc_G]
   \<and> candidates scenario_tzdb (scenario_db_notified 1709973540000) scenario_now =
     Inr [scenario_doc_F, scenario_doc_G]
   \<and> scenario_doc_F \<in> set (match_cutoff 96 [scenario_doc_F, scenario_doc_G])
   \<and> \<not> (\<exists>r\<in>set (fst (getApproachingBirthdays scenario_tzdb
                 (Inr (scenario_db_notified 1709973660000)) scenario_now 96 24)).
           userId r = ''U'' \<and> friendId r = ''F1'')
   \<and> (\<exists>r\<in>set (fst (getApproachingBirthdays scenario_tzdb
                 (Inr (scenario_db_notified 1709973540000)) scenario_now 96 24)).
           userId r = ''U'' \<and> friendId r = ''F1'')"
proof -
  let ?late = "\<lparr>notification_userId = ''U'', notification_friendId = ''F1'', dateSent = 1709973660000\<rparr>"
  have c1: "candidates scenario_tzdb (scenario_db_notified 1709973660000) scenario_now =
              Inr [scenario_doc_F, scenario_doc_G]"
    by code_simp
  have c2: "candidates scenario_tzdb (scenario_db_notified 1709973540000) scenario_now =
              Inr [scenario_doc_F, scenario_doc_G]"
    by code_simp
  have m: "scenario_doc_F \<in> set (match_cutoff 96 [scenario_doc_F, scenario_doc_G])"
    by (simp add: match_cutoff_def scenario_doc_F_def)
  have ids: "profile_user (userProfile scenario_doc_F) = ''U''"
    "friend_id (friends scenario_doc_F) = ''F1''"
    by (simp_all add: scenario_doc_F_def scenario_profile_def scenario_friend_F_def)
  have late: "?late \<in> set (notifications (scenario_db_notified 1709973660000))
            \<and> notification_userId ?late = profile_user (userProfile scenario_doc_F)
            \<and> notification_friendId ?late = friend_id (friends scenario_doc_F)
            \<and> dateSent ?late = scenario_now - 24 * 3600000 + 60000"
    by (simp add: scenario_db_notified_def scenario_now_def ids)
  have early: "\<forall>n\<in>set (notifications (scenario_db_notified 1709973540000)).
              notification_userId n = profile_user (userProfile scenario_doc_F)
            \<and> notification_friendId n = friend_id (friends scenario_doc_F)
            \<longrightarrow> dateSent n = scenario_now - 24 * 3600000 - 60000"
    by (simp add: scenario_db_notified_def scenario_now_def)
  from clearance_boundary_exclusive[OF c1 m, where clearance = 24 and n = ?late] late
  have 1: "\<not> (\<exists>r\<in>set (fst (getApproachingBirthdays scenario_tzdb
                 (Inr (scenario_db_notified 1709973660000)) scenario_now 96 24)).
           userId r = profile_user (userProfile scenario_doc_F)
         \<and> friendId r = friend_id (friends scenario_doc_F))"
    by blast
  from clearance_boundary_exclusive[OF c2 m, where clearance = 24 and n = ?late] early
  have 2: "\<exists>r\<in>set (fst (getApproachingBirthdays scenario_tzdb
                 (Inr (scenario_db_notified 1709973540000)) scenario_now 96 24)).
           userId r = profile_user (userProfile scenario_doc_F)
         \<and> friendId r = friend_id (friends scenario_doc_F)"
    by blast
  show ?thesis using c1 c2 m 1 2 unfolding ids by blast
qed

text \<open>
  What the \<open>$addFields\<close> stages of a successful query produce, with the user's zone
  \<open>rule\<close>: \<open>thisYearBirthday\<close> is the occurrence in the calendar year that
  \<open>$year\<close> reads from \<open>now\<close>, which has no \<open>timezone\<close> argument and so is the year
  in UTC; \<open>nextYearBirthday\<close> is the one a year later; if the former is earlier than
  \<open>now\<close>, \<open>upcomingBirthday\<close> is the latter and \<open>hoursUntilBirthday\<close> is counted to
  it, otherwise both use the former. A user without a time zone gets null for both.
\<close>

lemma upcoming_birthday_by_utc_year:
  assumes "candidates tzdb db now = Inr ds" and "d \<in> set ds"
  shows "(profile_timezone (userProfile d) = None \<longrightarrow>
            upcomingBirthday d = None \<and> hoursUntilBirthday d = None)
       \<and> (\<forall>name. profile_timezone (userProfile d) = Some name \<longrightarrow>
           (\<exists>rule. tzdb name = Some rule
              \<and> thisYearBirthday d = Some (occurrence rule (year_of now) (friend_dob (friends d)))
              \<and> nextYearBirthday d = Some (occurrence rule (year_of now + 1) (friend_dob (friends d)))
              \<and> (occurrence rule (year_of now) (friend_dob (friends d)) < now \<longrightarrow>
                   upcomingBirthday d = Some (occurrence rule (year_of now + 1) (friend_dob (friends d)))
                 \<and> hoursUntilBirthday d =
                     Some (hours_between rule now (occurrence rule (year_of now + 1) (friend_dob (friends d)))))
              \<and> (\<not> occurrence rule (year_of now) (friend_dob (friends d)) < now \<longrightarrow>
                   upcomingBirthday d = Some (occurrence rule (year_of now) (friend_dob (friends d)))
                 \<and> hoursUntilBirthday d =
                     Some (hours_between rule now (occurrence rule (year_of now) (friend_dob (friends d)))))))"
proof -
  have none: "profile_timezone (userProfile d) = None \<longrightarrow>
            upcomingBirthday d = None \<and> hoursUntilBirthday d = None"
    using candidate_fields[OF assms]
    by (auto simp: dateFromParts_def dateDiff_hour_def bson_lt_def split: option.splits)
  show ?thesis
    using none candidate_occurrences[OF assms] by blast
qed

text \<open>
  C6 (a birthday that has passed rolls over to next year) fails while the calendar year on
  the user's clock is not the year in UTC. The user is in the zone \<open>+05:30\<close>, the friend
  \<open>J\<close> was born on a 1 January, and the query runs on 31 December 2024 at 20:00 UTC,
  which is 01:30 on 1 January 2025 on the user's clock. The current calendar year in the
  user's zone is 2025, and \<open>J\<close>'s birthday of 2025 began 90 minutes before \<open>now\<close>:
  by the claim the occurrence of 2026 is evaluated. The stages take the year from \<open>now\<close>
  in UTC, 2024: \<open>thisYearBirthday\<close> is the occurrence of 2024, \<open>nextYearBirthday\<close>
  that of 2025, and \<open>upcomingBirthday\<close> is the occurrence of 2025, which is earlier
  than \<open>now\<close>. \<open>hoursUntilBirthday\<close> is \<open>-1\<close>, within every cutoff, and the resolver
  returns the pair with \<open>hoursUntil = -1\<close>.
\<close>

theorem rollover_by_utc_year_misses_local_new_year:
  "profile_timezone scenario_profile = Some ''+05:30''
   \<and> scenario_tzdb ''+05:30'' = Some (fixed_offset 330)
   \<and> year_of scenario_new_year = 2024
   \<and> year_of (to_local (fixed_offset 330) scenario_new_year) = 2025
   \<and> candidates scenario_tzdb scenario_db_new_year scenario_new_year = Inr [scenario_doc_J]
   \<and> thisYearBirthday scenario_doc_J =
       Some (occurrence (fixed_offset 330) 2024 (friend_dob scenario_friend_J))
   \<and> occurrence (fixed_offset 330) 2025 (friend_dob scenario_friend_J) = 1735669800000
   \<and> occurrence (fixed_offset 330) 2025 (friend_dob scenario_friend_J) < scenario_new_year
   \<and> scenario_new_year < occurrence (fixed_offset 330) 2026 (friend_dob scenario_friend_J)
   \<and> upcomingBirthday scenario_doc_J =
       Some (occurrence (fixed_offset 330) 2025 (friend_dob scenario_friend_J))
   \<and> upcomingBirthday scenario_doc_J \<noteq>
       Some (occurrence (fixed_offset 330) 2026 (friend_dob scenario_friend_J))
   \<and> hoursUntilBirthday scenario_doc_J = Some (- 1)
   \<and> getApproachingBirthdays scenario_tzdb (Inr scenario_db_new_year) scenario_new_year 96 24 =
       ([\<lparr>userId = ''U'', email = ''u@example.org'', token = Some ''tok1'', friendId = ''J1'',
          friendName = ''J'', hoursUntil = - 1, emailNotifications = False,
          pushNotifications = True\<rparr>], [])"
proof -
  have tz: "profile_timezone scenario_profile = Some ''+05:30''"
    by (simp add: scenario_profile_def)
  have zone: "scenario_tzdb ''+05:30'' = Some (fixed_offset 330)"
    by (simp add: scenario_tzdb_def)
  have y1: "year_of scenario_new_year = 2024" by code_simp
  have y2: "year_of (to_local (fixed_offset 330) scenario_new_year) = 2025" by code_simp
  have c: "candidates scenario_tzdb scenario_db_new_year scenario_new_year = Inr [scenario_doc_J]"
    by code_simp
  have o24: "occurrence (fixed_offset 330) 2024 (friend_dob scenario_friend_J) = 1704047400000"
    by code_simp
  have o25: "occurrence (fixed_offset 330) 2025 (friend_dob scenario_friend_J) = 1735669800000"
    by code_simp
  have o26: "occurrence (fixed_offset 330) 2026 (friend_dob scenario_friend_J) = 1767205800000"
    by code_simp
  have this_y: "thisYearBirthday scenario_doc_J = Some 1704047400000"
    and up: "upcomingBirthday scenario_doc_J = Some 1735669800000"
    and h: "hoursUntilBirthday scenario_doc_J = Some (- 1)"
    by (simp_all add: scenario_doc_J_def)
  have r: "getApproachingBirthdays scenario_tzdb (Inr scenario_db_new_year) scenario_new_year 96 24 =
       ([\<lparr>userId = ''U'', email = ''u@example.org'', token = Some ''tok1'', friendId = ''J1'',
          friendName = ''J'', hoursUntil = - 1, emailNotifications = False,
          pushNotifications = True\<rparr>], [])"
    by code_simp
  show ?thesis
    unfolding o24 o25 o26
    using tz zone y1 y2 c this_y up h r by (simp add: scenario_new_year_def)
qed

text \<open>
  C9 (a failed resolution returns the empty list). Whenever the query fails, because
  the driver rejects it or because a stage raises an error, \<open>getApproachingBirthdays\<close>
  returns the empty list and writes the error to the console; the returned list is the
  one an empty database gives.
\<close>

theorem resolution_failure_absorbed:
  assumes "and_then connection
             (\<lambda>db. aggregate tzdb db now cutoffHours (now - clearance * 3600000)) = Inl e"
  shows "getApproachingBirthdays tzdb connection now cutoffHours clearance = ([], [Console_error e])
       \<and> fst (getApproachingBirthdays tzdb connection now cutoffHours clearance) =
           fst (getApproachingBirthdays tzdb (Inr empty_database) now cutoffHours clearance)"
proof -
  have "candidates tzdb empty_database now = Inr []"
    by (simp add: candidates_def and_then_def empty_database_def lookup_unwind_friends_def
          match_notifications_enabled_def lookup_unwind_userProfile_def)
  then have "fst (getApproachingBirthdays tzdb (Inr empty_database) now cutoffHours clearance) = []"
    by (simp add: getApproachingBirthdays_resolved resolved_def match_cutoff_def
          match_no_recentNotifications_def lookup_unwind_device_def)
  then show ?thesis using assms by (simp add: getApproachingBirthdays_def)
qed

text \<open>
  The scenario with a zone name the server does not know, and with a connection that is
  down.
\<close>

theorem resolution_failure_absorbed_witness:
  "and_then (Inr scenario_db_unknown_zone)
     (\<lambda>db. aggregate scenario_tzdb db scenario_now 96 (scenario_now - 24 * 3600000)) =
     Inl (UnrecognizedTimeZone ''Mars/Olympus'')
   \<and> getApproachingBirthdays scenario_tzdb (Inr scenario_db_unknown_zone) scenario_now 96 24 =
       ([], [Console_error (UnrecognizedTimeZone ''Mars/Olympus'')])
   \<and> getApproachingBirthdays scenario_tzdb (Inl (QueryError ''connection closed'')) scenario_now 96 24 =
       ([], [Console_error (QueryError ''connection closed'')])"
proof -
  have h: "and_then (Inr scenario_db_unknown_zone)
     (\<lambda>db. aggregate scenario_tzdb db scenario_now 96 (scenario_now - 24 * 3600000)) =
     Inl (UnrecognizedTimeZone ''Mars/Olympus'')"
    by code_simp
  have h': "and_then (Inl (QueryError ''connection closed''))
     (\<lambda>db. aggregate scenario_tzdb db scenario_now 96 (scenario_now - 24 * 3600000)) =
     Inl (QueryError ''connection closed'')"
    by (simp add: and_then_def)
  from resolution_failure_absorbed[OF h] resolution_failure_absorbed[OF h'] h
  show ?thesis by blast
qed

section \<open>Properties of the calendar\<close>

text \<open>
  \<open>days_from_civil\<close> and \<open>civil_from_days\<close> work on eras of 400 years that begin on a
  1 March. The lemmas below relate them to each other and to the calendar's rules.
\<close>

lemma div_step: "(0::int) < k \<Longrightarrow> x div k \<le> (x + 1) div k \<and> (x + 1) div k \<le> x div k + 1"
proof
  assume k: "0 < k"
  show "x div k \<le> (x + 1) div k" using k by (simp add: zdiv_mono1)
  have "(x + 1) div k \<le> (x + k) div k" using k by (intro zdiv_mono1) auto
  also have "\<dots> = x div k + 1" using k div_add_self2[of k x] by linarith
  finally show "(x + 1) div k \<le> x div k + 1" .
qed

lemma year_estimate_step: "year_estimate x \<le> year_estimate (x + 1)"
proof -
  define a where "a = x div 36524"
  define b where "b = (x + 1) div 36524"
  have ab: "a \<le> b" "b \<le> a + 1" using div_step[of 36524 x] by (simp_all add: a_def b_def)
  have q: "x div 146096 = a div 4" "(x + 1) div 146096 = b div 4"
    unfolding a_def b_def by (simp_all add: zdiv_zmult2_eq[symmetric])
  have "b div 4 - a div 4 \<le> b - a" using ab by presburger
  moreover have "(x + 1) div 1460 \<le> x div 1460 + 1" using div_step[of 1460 x] by simp
  ultimately show ?thesis
    unfolding year_estimate_def q a_def[symmetric] b_def[symmetric] by linarith
qed

lemma year_estimate_mono: "x \<le> y \<Longrightarrow> year_estimate x \<le> year_estimate y"
proof (induction "nat (y - x)" arbitrary: y)
  case 0
  then show ?case by simp
next
  case (Suc n)
  then have "n = nat ((y - 1) - x)" "x \<le> y - 1" by linarith+
  from Suc.hyps(1)[OF this] have "year_estimate x \<le> year_estimate (y - 1)" .
  also have "\<dots> \<le> year_estimate y" using year_estimate_step[of "y - 1"] by simp
  finally show ?case .
qed

lemma all_year_ends: "list_all year_ends_ok [0..399]"
  by code_simp

lemma year_ends: "0 \<le> k \<Longrightarrow> k < 400 \<Longrightarrow> year_ends_ok k"
proof -
  assume "0 \<le> k" "k < 400"
  then have "k \<in> set [0..399]" by simp
  with all_year_ends show ?thesis by (simp add: list_all_iff)
qed

lemma year_estimate_year:
  assumes "0 \<le> k" "k < 400" "0 \<le> doy" "doy < era_year_length k"
  shows "year_estimate (era_day k + doy) div 365 = k"
proof -
  from year_ends[OF assms(1,2)] have
    lo: "365 * k \<le> year_estimate (era_day k)"
    and hi: "year_estimate (era_day k + era_year_length k - 1) < 365 * k + 365"
    by (simp_all add: year_ends_ok_def)
  have "year_estimate (era_day k) \<le> year_estimate (era_day k + doy)"
    using assms(3) by (intro year_estimate_mono) simp
  moreover have "year_estimate (era_day k + doy) \<le> year_estimate (era_day k + era_year_length k - 1)"
    using assms(4) by (intro year_estimate_mono) simp
  ultimately have "365 * k \<le> year_estimate (era_day k + doy)"
    "year_estimate (era_day k + doy) < 365 * k + 365"
    using lo hi by linarith+
  then show ?thesis
    by (intro int_div_pos_eq[where r = "year_estimate (era_day k + doy) - 365 * k"]) simp_all
qed

lemma month_from_day:
  fixes mp d :: int
  assumes "1 \<le> d" "d \<le> (153 * (mp + 1) + 2) div 5 - (153 * mp + 2) div 5"
  shows "(5 * ((153 * mp + 2) div 5 + d - 1) + 2) div 153 = mp"
proof -
  define s where "s = (153 * mp + 2) div 5"
  define s' where "s' = (153 * (mp + 1) + 2) div 5"
  have a: "5 * s \<le> 153 * mp + 2" "153 * mp + 2 < 5 * s + 5"
    unfolding s_def by presburger+
  have b: "5 * s' \<le> 153 * (mp + 1) + 2"
    unfolding s'_def by presburger
  have d: "1 \<le> d" "d \<le> s' - s"
    using assms by (simp_all add: s_def s'_def)
  have lo: "153 * mp \<le> 5 * (s + d - 1) + 2"
    using a d by (simp add: algebra_simps)
  have hi: "5 * (s + d - 1) + 2 < 153 * mp + 153"
    using b d by (simp add: algebra_simps)
  note lo hi
  then have "(5 * (s + d - 1) + 2) div 153 = mp"
    by (intro int_div_pos_eq[where r = "5 * (s + d - 1) + 2 - 153 * mp"]) simp_all
  then show ?thesis by (simp add: s_def)
qed

lemma month_cases:
  fixes m :: int
  assumes "1 \<le> m" "m \<le> 12"
  obtains "m = 1" | "m = 2" | "m = 3" | "m = 4" | "m = 5" | "m = 6"
    | "m = 7" | "m = 8" | "m = 9" | "m = 10" | "m = 11" | "m = 12"
  using assms by atomize_elim arith

lemma month_facts:
  assumes "valid_date y m d"
  shows "d \<le> month_start (month_index m + 1) - month_start (month_index m)"
    and "0 \<le> month_start (month_index m) + d - 1"
    and "month_start (month_index m) + d - 1 < (if m = 2 \<and> leap_year y then 366 else 365)"
    and "(if month_index m < 10 then month_index m + 3 else month_index m - 9) = m"
proof -
  from assms have m: "1 \<le> m" "m \<le> 12" and d: "1 \<le> d" "d \<le> days_in_month y m"
    by (simp_all add: valid_date_def)
  from m show "d \<le> month_start (month_index m + 1) - month_start (month_index m)"
    using d by (cases rule: month_cases) (simp_all add: month_index_def month_start_def days_in_month_def split: if_splits)
  from m show "0 \<le> month_start (month_index m) + d - 1"
    using d by (cases rule: month_cases) (simp_all add: month_index_def month_start_def)
  from m show "month_start (month_index m) + d - 1 < (if m = 2 \<and> leap_year y then 366 else 365)"
    using d by (cases rule: month_cases) (simp_all add: month_index_def month_start_def days_in_month_def split: if_splits)
  from m show "(if month_index m < 10 then month_index m + 3 else month_index m - 9) = m"
    by (cases rule: month_cases) (simp_all add: month_index_def)
qed

lemma mod_400_succ:
  fixes a k :: int
  assumes "k dvd 400"
  shows "(a mod 400 + 1) mod k = (a + 1) mod k"
proof -
  have "(a mod 400 + 1) mod k = (a mod 400 mod k + 1 mod k) mod k"
    by (simp only: mod_add_eq)
  also have "a mod 400 mod k = a mod k"
    using assms by (rule mod_mod_cancel)
  also have "(a mod k + 1 mod k) mod k = (a + 1) mod k"
    by (simp only: mod_add_eq)
  finally show ?thesis .
qed

lemma succ_mod_zero:
  fixes r k :: int
  assumes "1 < k"
  shows "(r + 1) mod k = 0 \<longleftrightarrow> r mod k = k - 1"
proof -
  define q where "q = r mod k"
  have q: "0 \<le> q" "q < k" using assms by (simp_all add: q_def)
  have eq: "(r + 1) mod k = (q + 1) mod k"
    unfolding q_def by (simp add: mod_simps)
  show ?thesis
  proof (cases "q = k - 1")
    case True
    then show ?thesis using eq by (simp add: q_def[symmetric])
  next
    case False
    with q have "q + 1 < k" by simp
    with q have "(q + 1) mod k = q + 1" by simp
    with False q eq show ?thesis by (simp add: q_def[symmetric])
  qed
qed

lemma leap_in_era:
  "leap_year (y' + 1) \<longleftrightarrow> era_year_length (y' mod 400) = 366"
proof -
  define r where "r = y' mod 400"
  have r: "0 \<le> r" "r < 400" by (simp_all add: r_def)
  have "(y' + 1) mod 4 = (r + 1) mod 4" "(y' + 1) mod 100 = (r + 1) mod 100"
    "(y' + 1) mod 400 = (r + 1) mod 400"
    unfolding r_def by (simp_all add: mod_400_succ)
  moreover have "(r + 1) mod 4 = 0 \<longleftrightarrow> r mod 4 = 3" using succ_mod_zero[of 4 r] by simp
  moreover have "(r + 1) mod 100 = 0 \<longleftrightarrow> r mod 100 = 99" using succ_mod_zero[of 100 r] by simp
  moreover have "(r + 1) mod 400 = 0 \<longleftrightarrow> r = 399" using succ_mod_zero[of 400 r] r by simp
  ultimately show ?thesis
    unfolding leap_year_def era_year_length_def r_def[symmetric] by auto
qed

lemma era_day_bound:
  assumes "0 \<le> yoe" "yoe < 400" "0 \<le> doy" "doy < era_year_length yoe"
  shows "0 \<le> era_day yoe + doy" "era_day yoe + doy < 146097"
proof -
  have q: "0 \<le> yoe div 4" "yoe div 4 \<le> 99" "0 \<le> yoe div 100" "yoe div 100 \<le> 3"
    using assms(1,2) by simp_all
  have "yoe div 100 \<le> yoe div 4" using assms(1) by (simp add: zdiv_mono2)
  then show "0 \<le> era_day yoe + doy" using assms(1,3) by (simp add: era_day_def)
  show "era_day yoe + doy < 146097"
  proof (cases "yoe = 399")
    case True
    then show ?thesis using assms(4) by (simp add: era_day_def era_year_length_def)
  next
    case False
    then have "yoe \<le> 398" using assms(2) by simp
    moreover have "doy < 366" using assms(4) by (simp add: era_year_length_def split: if_splits)
    ultimately show ?thesis using q by (simp add: era_day_def)
  qed
qed

lemma civil_from_days_eq:
  assumes z: "z + 719468 = era * 146097 + doe" and doe: "0 \<le> doe" "doe < 146097"
    and ye: "year_estimate doe div 365 = yoe"
    and doy: "doe - era_day yoe = doy"
    and mp: "(5 * doy + 2) div 153 = mp"
  shows "civil_from_days z =
          (if (if mp < 10 then mp + 3 else mp - 9) \<le> 2 then yoe + era * 400 + 1 else yoe + era * 400,
           if mp < 10 then mp + 3 else mp - 9,
           doy - (153 * mp + 2) div 5 + 1)"
proof -
  have e: "(z + 719468) div 146097 = era"
    unfolding z using doe by (intro int_div_pos_eq[where r = doe]) simp_all
  have r: "z + 719468 - era * 146097 = doe"
    unfolding z by simp
  have ye': "(doe - doe div 1460 + doe div 36524 - doe div 146096) div 365 = yoe"
    using ye by (simp only: year_estimate_def)
  have doy': "doe - (365 * yoe + yoe div 4 - yoe div 100) = doy"
    using doy by (simp only: era_day_def)
  show ?thesis
    unfolding civil_from_days_def Let_def e r ye' doy' mp by (rule refl)
qed

lemma days_from_civil_eq:
  "days_from_civil y m d =
     (if m \<le> 2 then y - 1 else y) div 400 * 146097
       + (era_day ((if m \<le> 2 then y - 1 else y) - (if m \<le> 2 then y - 1 else y) div 400 * 400)
          + (month_start (month_index m) + d - 1))
       - 719468"
  unfolding days_from_civil_def Let_def era_day_def month_start_def month_index_def
  by (simp only: mult.commute[of _ 365])

text \<open>
  \<open>civil_from_days\<close> gives back every date that exists.
\<close>

lemma civil_from_days_from_civil:
  assumes v: "valid_date y m d"
  shows "civil_from_days (days_from_civil y m d) = (y, m, d)"
proof -
  define y' where "y' = (if m \<le> 2 then y - 1 else y)"
  define era where "era = y' div 400"
  define yoe where "yoe = y' - era * 400"
  define mp where "mp = month_index m"
  define doy where "doy = month_start mp + d - 1"
  define doe where "doe = era_day yoe + doy"
  have yoe_mod: "yoe = y' mod 400"
    unfolding yoe_def era_def by (simp add: minus_div_mult_eq_mod [symmetric])
  have yoe: "0 \<le> yoe" "yoe < 400" by (simp_all add: yoe_mod)
  have y'_eq: "y' = yoe + era * 400" by (simp add: yoe_def)
  from v have m: "1 \<le> m" "m \<le> 12" and d1: "1 \<le> d" by (simp_all add: valid_date_def)
  have mf: "d \<le> month_start (mp + 1) - month_start mp"
    "0 \<le> doy"
    "doy < (if m = 2 \<and> leap_year y then 366 else 365)"
    "(if mp < 10 then mp + 3 else mp - 9) = m"
    unfolding mp_def doy_def by (rule month_facts[OF v])+
  have leap_len: "m = 2 \<and> leap_year y \<Longrightarrow> era_year_length yoe = 366"
    using leap_in_era[of y'] by (simp add: y'_def yoe_mod)
  have doy: "0 \<le> doy" "doy < era_year_length yoe"
  proof -
    show "0 \<le> doy" using mf(2) .
    show "doy < era_year_length yoe"
    proof (cases "m = 2 \<and> leap_year y")
      case True
      with mf(3) leap_len show ?thesis by simp
    next
      case False
      with mf(3) have "doy < 365" by (simp split: if_splits)
      then show ?thesis by (simp add: era_year_length_def)
    qed
  qed
  have db: "0 \<le> doe" "doe < 146097"
    using era_day_bound[OF yoe doy] by (simp_all add: doe_def)
  have z: "days_from_civil y m d + 719468 = era * 146097 + doe"
    unfolding days_from_civil_eq doe_def doy_def mp_def yoe_def era_def y'_def by simp
  have ye: "year_estimate doe div 365 = yoe"
    unfolding doe_def by (rule year_estimate_year[OF yoe doy])
  have dd: "doe - era_day yoe = doy" by (simp add: doe_def)
  have mp': "(5 * doy + 2) div 153 = mp"
    using month_from_day[OF d1, of mp] mf(1) by (simp add: month_start_def doy_def)
  have "civil_from_days (days_from_civil y m d) =
          (if (if mp < 10 then mp + 3 else mp - 9) \<le> 2 then yoe + era * 400 + 1 else yoe + era * 400,
           if mp < 10 then mp + 3 else mp - 9,
           doy - (153 * mp + 2) div 5 + 1)"
    by (rule civil_from_days_eq[OF z db ye dd mp'])
  also have "\<dots> = (y, m, d)"
    unfolding mf(4) using y'_eq by (auto simp: y'_def doy_def month_start_def split: if_splits)
  finally show ?thesis .
qed

lemma div_succ:
  fixes k n :: int
  assumes "1 < n"
  shows "(k + 1) div n = k div n + (if k mod n = n - 1 then 1 else 0)"
proof -
  define q where "q = k div n"
  define r where "r = k mod n"
  have e: "k = n * q + r" by (simp add: q_def r_def)
  have r: "0 \<le> r" "r < n" using assms by (simp_all add: r_def)
  show ?thesis
  proof (cases "r = n - 1")
    case True
    have "k + 1 = n * (q + 1) + 0"
      unfolding distrib_left using e True by linarith
    then have "(k + 1) div n = q + 1"
      using assms by (intro int_div_pos_eq[where r = 0]) simp_all
    with True show ?thesis by (simp add: q_def r_def)
  next
    case False
    have "k + 1 = n * q + (r + 1)" using e by linarith
    moreover have "r + 1 < n" using False r by simp
    ultimately have "(k + 1) div n = q"
      using r by (intro int_div_pos_eq[where r = "r + 1"]) simp_all
    with False show ?thesis by (simp add: q_def r_def)
  qed
qed

lemma era_day_succ:
  assumes "0 \<le> k" "k < 399"
  shows "era_day (k + 1) = era_day k + era_year_length k"
proof -
  have c: "k mod 100 = 99 \<Longrightarrow> k mod 4 = 3"
  proof -
    assume a: "k mod 100 = 99"
    have "k mod 4 = k mod 100 mod 4" by (simp add: mod_mod_cancel)
    then show ?thesis using a by simp
  qed
  show ?thesis
    using assms c unfolding era_day_def era_year_length_def
    by (simp add: div_succ[of 4 k] div_succ[of 100 k])
qed

lemma era_year_exists:
  assumes "0 \<le> doe" "doe < 146097"
  shows "\<exists>k. 0 \<le> k \<and> k < 400 \<and> era_day k \<le> doe \<and> doe < era_day k + era_year_length k"
proof -
  have "int n < 146097 \<longrightarrow>
          (\<exists>k. 0 \<le> k \<and> k < 400 \<and> era_day k \<le> int n \<and> int n < era_day k + era_year_length k)" for n
  proof (induction n)
    case 0
    have "0 \<le> (0::int) \<and> (0::int) < 400 \<and> era_day 0 \<le> int 0 \<and> int 0 < era_day 0 + era_year_length 0"
      by (simp add: era_day_def era_year_length_def)
    then show ?case by blast
  next
    case (Suc n)
    show ?case
    proof
      assume b: "int (Suc n) < 146097"
      with Suc.IH obtain k where k: "0 \<le> k" "k < 400" "era_day k \<le> int n"
        "int n < era_day k + era_year_length k"
        by auto
      show "\<exists>k. 0 \<le> k \<and> k < 400 \<and> era_day k \<le> int (Suc n) \<and> int (Suc n) < era_day k + era_year_length k"
      proof (cases "int (Suc n) < era_day k + era_year_length k")
        case True
        with k show ?thesis by (intro exI[of _ k]) simp
      next
        case False
        with k(4) have eq: "int (Suc n) = era_day k + era_year_length k" by simp
        have "k \<noteq> 399"
        proof
          assume "k = 399"
          with eq b show False by (simp add: era_day_def era_year_length_def)
        qed
        with k have k': "0 \<le> k" "k < 399" by simp_all
        from era_day_succ[OF k'] eq have "era_day (k + 1) = int (Suc n)" by simp
        moreover have "0 < era_year_length (k + 1)" by (simp add: era_year_length_def)
        ultimately show ?thesis using k' by (intro exI[of _ "k + 1"]) simp
      qed
    qed
  qed
  from this[of "nat doe"] assms show ?thesis by simp
qed

lemma month_index_cases:
  fixes mp :: int
  assumes "0 \<le> mp" "mp \<le> 11"
  obtains "mp = 0" | "mp = 1" | "mp = 2" | "mp = 3" | "mp = 4" | "mp = 5"
    | "mp = 6" | "mp = 7" | "mp = 8" | "mp = 9" | "mp = 10" | "mp = 11"
  using assms by atomize_elim arith

text \<open>
  Every day number is that of a date that exists, which \<open>civil_from_days\<close> finds.
\<close>

lemma civil_from_days_valid:
  obtains y m d where "civil_from_days z = (y, m, d)" "valid_date y m d"
    "days_from_civil y m d = z"
proof -
  define z' where "z' = z + 719468"
  define era where "era = z' div 146097"
  define doe where "doe = z' - era * 146097"
  have doe_mod: "doe = z' mod 146097"
    unfolding doe_def era_def by (simp add: minus_div_mult_eq_mod [symmetric])
  have doe: "0 \<le> doe" "doe < 146097" by (simp_all add: doe_mod)
  from era_year_exists[OF doe] obtain k where k: "0 \<le> k" "k < 400"
    and kd: "era_day k \<le> doe" "doe < era_day k + era_year_length k"
    by blast
  define doy where "doy = doe - era_day k"
  have doy: "0 \<le> doy" "doy < era_year_length k" using kd by (simp_all add: doy_def)
  have doy365: "doy \<le> 365" using doy(2) by (simp add: era_year_length_def split: if_splits)
  define mp where "mp = (5 * doy + 2) div 153"
  define m where "m = (if mp < 10 then mp + 3 else mp - 9)"
  define d where "d = doy - month_start mp + 1"
  define y where "y = (if m \<le> 2 then k + era * 400 + 1 else k + era * 400)"
  have zz: "z + 719468 = era * 146097 + doe" by (simp add: doe_def z'_def)
  have ye: "year_estimate doe div 365 = k"
    using year_estimate_year[OF k doy] by (simp add: doy_def)
  have c: "civil_from_days z = (y, m, d)"
    unfolding y_def m_def d_def month_start_def
    by (rule civil_from_days_eq[OF zz doe ye doy_def[symmetric] mp_def[symmetric]])
  have mpb: "153 * mp \<le> 5 * doy + 2" "5 * doy + 2 < 153 * mp + 153"
    unfolding mp_def by presburger+
  have mp: "0 \<le> mp" "mp \<le> 11" using mpb doy(1) doy365 by linarith+
  have ms: "5 * month_start mp \<le> 153 * mp + 2"
    "153 * mp + 155 < 5 * month_start (mp + 1) + 5"
    unfolding month_start_def by presburger+
  have d: "1 \<le> d" "d \<le> month_start (mp + 1) - month_start mp"
    unfolding d_def using mpb ms by linarith+
  have mi: "month_index m = mp"
    using mp by (cases rule: month_index_cases) (simp_all add: m_def month_index_def)
  have y': "(if m \<le> 2 then y - 1 else y) = k + era * 400"
    by (simp add: y_def)
  have feb: "m = 2 \<Longrightarrow> d \<le> (if leap_year y then 29 else 28)"
  proof -
    assume m2: "m = 2"
    with mp have mp11: "mp = 11" by (cases rule: month_index_cases) (simp_all add: m_def)
    have yk: "y = (k + era * 400) + 1" using m2 by (simp add: y_def)
    have "(k + era * 400) mod 400 = k" using k by simp
    with leap_in_era[of "k + era * 400"] yk
    have leap: "leap_year y \<longleftrightarrow> era_year_length k = 366" by simp
    have dd: "d = doy - 336" by (simp add: d_def mp11 month_start_def)
    show ?thesis
    proof (cases "leap_year y")
      case True
      then show ?thesis using doy365 dd by simp
    next
      case False
      with leap have "era_year_length k = 365" by (simp add: era_year_length_def split: if_splits)
      with doy(2) dd False show ?thesis by simp
    qed
  qed
  have m12: "1 \<le> m" "m \<le> 12"
    using mp by (simp_all add: m_def)
  have dim: "d \<le> days_in_month y m"
  proof (cases "m = 2")
    case True
    with feb show ?thesis by (simp add: days_in_month_def)
  next
    case False
    from mp show ?thesis using d(2) False
      by (cases rule: month_index_cases)
         (simp_all add: m_def month_start_def days_in_month_def)
  qed
  have v: "valid_date y m d" using m12 d(1) dim by (simp add: valid_date_def)
  have e: "(k + era * 400) div 400 = era"
    using k by (intro int_div_pos_eq[where r = k]) simp_all
  have "days_from_civil y m d = era * 146097 + (era_day k + (month_start mp + d - 1)) - 719468"
    unfolding days_from_civil_eq y' e mi by simp
  also have "\<dots> = z" by (simp add: d_def doy_def doe_def z'_def)
  finally have "days_from_civil y m d = z" .
  with c v show ?thesis by (rule that)
qed

lemma div_pred:
  fixes y n :: int
  assumes "1 < n"
  shows "y div n = (y - 1) div n + (if y mod n = 0 then 1 else 0)"
  using div_succ[OF assms, of "y - 1"] succ_mod_zero[OF assms, of "y - 1"] by simp

lemma days_before_month_values:
  "days_before_month y 1 = 0"
  "days_before_month y 2 = 31"
  "days_before_month y 3 = 59 + (if leap_year y then 1 else 0)"
  "days_before_month y 4 = 90 + (if leap_year y then 1 else 0)"
  "days_before_month y 5 = 120 + (if leap_year y then 1 else 0)"
  "days_before_month y 6 = 151 + (if leap_year y then 1 else 0)"
  "days_before_month y 7 = 181 + (if leap_year y then 1 else 0)"
  "days_before_month y 8 = 212 + (if leap_year y then 1 else 0)"
  "days_before_month y 9 = 243 + (if leap_year y then 1 else 0)"
  "days_before_month y 10 = 273 + (if leap_year y then 1 else 0)"
  "days_before_month y 11 = 304 + (if leap_year y then 1 else 0)"
  "days_before_month y 12 = 334 + (if leap_year y then 1 else 0)"
  by (simp_all add: days_before_month_def days_in_month_def upto_rec1)

lemma leap_year_count:
  "y div 4 - y div 100 + y div 400 = leap_days_before y + (if leap_year y then 1 else 0)"
proof -
  define p4 where "p4 \<longleftrightarrow> y mod 4 = 0"
  define p100 where "p100 \<longleftrightarrow> y mod 100 = 0"
  define p400 where "p400 \<longleftrightarrow> y mod 400 = 0"
  have a: "p400 \<Longrightarrow> p100"
    unfolding p400_def p100_def using dvd_trans[of 100 400 y] by (simp add: mod_eq_0_iff_dvd)
  have b: "p100 \<Longrightarrow> p4"
    unfolding p100_def p4_def using dvd_trans[of 4 100 y] by (simp add: mod_eq_0_iff_dvd)
  have d4: "y div 4 = (y - 1) div 4 + (if p4 then 1 else 0)"
    unfolding p4_def by (rule div_pred) simp
  have d100: "y div 100 = (y - 1) div 100 + (if p100 then 1 else 0)"
    unfolding p100_def by (rule div_pred) simp
  have d400: "y div 400 = (y - 1) div 400 + (if p400 then 1 else 0)"
    unfolding p400_def by (rule div_pred) simp
  have l: "leap_year y \<longleftrightarrow> (p4 \<and> \<not> p100) \<or> p400"
    by (simp add: leap_year_def p4_def p100_def p400_def)
  have "(if p4 then 1 else 0) - (if p100 then 1 else 0) + (if p400 then 1 else 0)
          = (if (p4 \<and> \<not> p100) \<or> p400 then 1 else (0::int))"
    using a b by (cases p4; cases p100; cases p400) simp_all
  then show ?thesis
    unfolding l leap_days_before_def d4 d100 d400 by linarith
qed

lemma era_sum:
  "365 * y + y div 4 - y div 100 + y div 400 = y div 400 * 146097 + era_day (y - y div 400 * 400)"
proof -
  define era where "era = y div 400"
  define yoe where "yoe = y - era * 400"
  have y: "y = yoe + era * 400" by (simp add: yoe_def)
  have 1: "y div 4 = yoe div 4 + era * 100"
  proof -
    have "y = yoe + (era * 100) * 4" using y by simp
    then have "y div 4 = (yoe + (era * 100) * 4) div 4" by simp
    then show ?thesis by simp
  qed
  have 2: "y div 100 = yoe div 100 + era * 4"
  proof -
    have "y = yoe + (era * 4) * 100" using y by simp
    then have "y div 100 = (yoe + (era * 4) * 100) div 100" by simp
    then show ?thesis by simp
  qed
  have "365 * y + y div 4 - y div 100 + era = era * 146097 + (365 * yoe + yoe div 4 - yoe div 100)"
    unfolding 1 2 using y by linarith
  then show ?thesis
    unfolding era_def[symmetric] yoe_def[symmetric] era_day_def .
qed

text \<open>
  The day number that \<open>days_from_civil\<close> computes is the one counted by the rules of
  the calendar.
\<close>

lemma days_from_civil_gregorian:
  assumes "1 \<le> m" "m \<le> 12"
  shows "days_from_civil y m d = gregorian_day_number y m d"
proof -
  have c: "leap_days_before 1970 = 477" by (simp add: leap_days_before_def)
  have e: "(y - 1) div 400 * 146097 + era_day (y - 1 - (y - 1) div 400 * 400)
             = 365 * (y - 1) + leap_days_before y"
    using era_sum[of "y - 1"] by (simp add: leap_days_before_def)
  have early: "days_from_civil y m d =
      365 * (y - 1) + leap_days_before y + (month_start (month_index m) + d - 1) - 719468"
    if "m \<le> 2"
    unfolding days_from_civil_eq using that e by simp
  have l: "y div 400 * 146097 + era_day (y - y div 400 * 400)
             = 365 * y + leap_days_before y + (if leap_year y then 1 else 0)"
    using era_sum[of y] leap_year_count[of y] by linarith
  have late: "days_from_civil y m d =
      365 * y + leap_days_before y + (if leap_year y then 1 else 0)
        + (month_start (month_index m) + d - 1) - 719468"
    if "2 < m"
    unfolding days_from_civil_eq using that l by simp
  from assms show ?thesis
  proof (cases rule: month_cases)
    case 1
    then show ?thesis using early
      by (simp add: gregorian_day_number_def c days_before_month_values month_start_def
            month_index_def)
  next
    case 2
    then show ?thesis using early
      by (simp add: gregorian_day_number_def c days_before_month_values month_start_def
            month_index_def)
  next
    case 3
    then show ?thesis using late
      by (simp add: gregorian_day_number_def c days_before_month_values month_start_def
            month_index_def)
  next
    case 4
    then show ?thesis using late
      by (simp add: gregorian_day_number_def c days_before_month_values month_start_def
            month_index_def)
  next
    case 5
    then show ?thesis using late
      by (simp add: gregorian_day_number_def c days_before_month_values month_start_def
            month_index_def)
  next
    case 6
    then show ?thesis using late
      by (simp add: gregorian_day_number_def c days_before_month_values month_start_def
            month_index_def)
  next
    case 7
    then show ?thesis using late
      by (simp add: gregorian_day_number_def c days_before_month_values month_start_def
            month_index_def)
  next
    case 8
    then show ?thesis using late
      by (simp add: gregorian_day_number_def c days_before_month_values month_start_def
            month_index_def)
  next
    case 9
    then show ?thesis using late
      by (simp add: gregorian_day_number_def c days_before_month_values month_start_def
            month_index_def)
  next
    case 10
    then show ?thesis using late
      by (simp add: gregorian_day_number_def c days_before_month_values month_start_def
            month_index_def)
  next
    case 11
    then show ?thesis using late
      by (simp add: gregorian_day_number_def c days_before_month_values month_start_def
            month_index_def)
  next
    case 12
    then show ?thesis using late
      by (simp add: gregorian_day_number_def c days_before_month_values month_start_def
            month_index_def)
  qed
qed

section \<open>The birthday's occurrence\<close>

text \<open>
  \<open>$year\<close>, \<open>$month\<close> and \<open>$dayOfMonth\<close> read the date that the calendar gives
  to the UTC day of an instant.
\<close>

lemma civil_parts:
  "valid_date (year_of t) (month_of t) (dayOfMonth_of t)
   \<and> gregorian_day_number (year_of t) (month_of t) (dayOfMonth_of t) = t div 86400000"
proof -
  obtain y m d where c: "civil_from_days (t div 86400000) = (y, m, d)"
    and v: "valid_date y m d" and z: "days_from_civil y m d = t div 86400000"
    by (rule civil_from_days_valid)
  from v have "1 \<le> m" "m \<le> 12" by (simp_all add: valid_date_def)
  then have "days_from_civil y m d = gregorian_day_number y m d"
    by (rule days_from_civil_gregorian)
  with c v z show ?thesis by (simp add: year_of_def month_of_def dayOfMonth_of_def)
qed

lemma day_div: "(t - t mod 86400000) div 86400000 = t div (86400000::int)"
proof -
  have "t - t mod 86400000 = 86400000 * (t div 86400000) + 0"
    by (simp add: minus_mod_eq_mult_div)
  then show ?thesis by (intro int_div_pos_eq[where r = 0]) simp_all
qed

lemma time_of_day_discarded:
  "month_of (t - t mod 86400000) = month_of t
   \<and> dayOfMonth_of (t - t mod 86400000) = dayOfMonth_of t"
  by (simp add: month_of_def dayOfMonth_of_def day_div)

text \<open>A date that exists in one year exists in every year, but for 29 February.\<close>

lemma valid_in_year:
  assumes "valid_date y0 m d"
  shows "valid_date y m d \<or> (m = 2 \<and> d = 29 \<and> \<not> leap_year y)"
proof (cases "m = 2")
  case True
  with assms have "1 \<le> d" "d \<le> 29"
    by (simp_all add: valid_date_def days_in_month_def split: if_splits)
  with True show ?thesis by (auto simp: valid_date_def days_in_month_def)
next
  case False
  with assms show ?thesis by (simp add: valid_date_def days_in_month_def)
qed

lemma leap_day_runs_on:
  "\<not> leap_year y \<Longrightarrow> gregorian_day_number y 2 29 = gregorian_day_number y 3 1"
  by (simp add: gregorian_day_number_def days_before_month_values)

text \<open>
  The start of the hour of an instant on the zone's clock is at most an hour before it,
  and midnight of a day is the start of its hour.
\<close>

lemma hour_start_bounds:
  "hour_start rule t \<le> t \<and> t < hour_start rule t + 3600000"
proof -
  have "0 \<le> to_local rule t mod 3600000" "to_local rule t mod 3600000 < 3600000"
    by simp_all
  then show ?thesis unfolding hour_start_def by linarith
qed

lemma hour_start_midnight:
  assumes "to_local rule t = g * 86400000"
  shows "hour_start rule t = t"
proof -
  have "g * 86400000 = (g * 24) * (3600000::int)" by simp
  then have "(g * 86400000) mod (3600000::int) = 0" by (simp only: mod_mult_self2_is_0)
  with assms show ?thesis by (simp add: hour_start_def)
qed

text \<open>
  To an instant \<open>t\<close> that is midnight on the zone's clock, the count of hours differs from
  the time that passes by less than an hour.
\<close>

lemma hours_to_midnight:
  assumes "to_local rule t = g * 86400000"
  shows "(hours_between rule now t - 1) * 3600000 < t - now"
    and "t - now < (hours_between rule now t + 1) * 3600000"
proof -
  define D where "D = t - hour_start rule now"
  define h where "h = D div 3600000"
  have h: "hours_between rule now t = h"
    by (simp add: hours_between_def hour_start_midnight[OF assms] h_def D_def)
  have e: "D = 3600000 * h + D mod 3600000" by (simp add: h_def)
  have r: "0 \<le> D mod 3600000" "D mod 3600000 < 3600000" by simp_all
  have b: "hour_start rule now \<le> now" "now < hour_start rule now + 3600000"
    using hour_start_bounds[of rule now] by simp_all
  have D: "t - now \<le> D" "D < t - now + 3600000" using b by (simp_all add: D_def)
  show "(hours_between rule now t - 1) * 3600000 < t - now"
    unfolding h using e r D by (simp add: algebra_simps)
  show "t - now < (hours_between rule now t + 1) * 3600000"
    unfolding h using e r D by (simp add: algebra_simps)
qed

text \<open>
  Where moreover the zone's offset from UTC differs between the two instants by whole
  hours only, the count is the time that passes, rounded up to whole hours.
\<close>

lemma hours_to_midnight_rounded_up:
  assumes m: "to_local rule t = g * 86400000"
    and o: "(to_local rule now - now) mod 3600000 = (to_local rule t - t) mod 3600000"
  shows "hours_between rule now t = - ((now - t) div 3600000)"
proof -
  define r where "r = to_local rule now mod 3600000"
  define D where "D = t - hour_start rule now"
  have r: "0 \<le> r" "r < 3600000" by (simp_all add: r_def)
  have D: "D = t - now + r" by (simp add: D_def hour_start_def r_def)
  have g: "(g * 86400000) mod (3600000::int) = 0"
  proof -
    have "g * 86400000 = (g * 24) * (3600000::int)" by simp
    then show ?thesis by (simp only: mod_mult_self2_is_0)
  qed
  have "D mod 3600000 = (t - now + to_local rule now) mod 3600000"
    unfolding D r_def by (simp add: mod_simps)
  also have "t - now + to_local rule now = t + (to_local rule now - now)" by simp
  also have "(t + (to_local rule now - now)) mod 3600000
                = (t + (to_local rule now - now) mod 3600000) mod 3600000"
    by (simp only: mod_add_right_eq)
  also have "\<dots> = (t + (to_local rule t - t) mod 3600000) mod 3600000"
    by (simp only: o)
  also have "\<dots> = (t + (to_local rule t - t)) mod 3600000"
    by (simp only: mod_add_right_eq)
  also have "\<dots> = 0" using g by (simp add: m)
  finally have z: "D mod 3600000 = 0" .
  define h where "h = D div 3600000"
  have e: "D = 3600000 * h" using z by (simp add: h_def mod_eq_0_iff_dvd)
  have hb: "hours_between rule now t = h"
    by (simp add: hours_between_def hour_start_midnight[OF m] h_def D_def)
  have "now - t = 3600000 * (- h) + r" using e D by simp
  then have "(now - t) div 3600000 = - h"
    using r by (intro int_div_pos_eq[where r = r]) simp_all
  with hb show ?thesis by simp
qed

text \<open>
  C10 (the occurrence is local midnight of the month and day of the date of birth). For
  every document that the \<open>$addFields\<close> stages of a successful query produce for a user
  with a time zone, with the zone's rule \<open>rule\<close> and \<open>dob\<close> the friend's date of
  birth:

  \<^item> the month and the day are those of the calendar date of \<open>dob\<close>'s day (in UTC), the
    date counted by the calendar's rules; the time of day of \<open>dob\<close> plays no part;
  \<open>now\<close>'s year is read in the same way;
  \<^item> \<open>upcomingBirthday\<close> is the instant \<open>t\<close> that the zone's rule gives for 00:00 on
    the zone's clock of that month and day in a year \<open>y\<close>, which is \<open>now\<close>'s year or
    the next; a 29 February in a year that is not a leap year is 1 March;
  \<^item> \<open>hoursUntilBirthday\<close> is \<open>$dateDiff\<close>'s count of hours from \<open>now\<close> to \<open>t\<close>;
    where the zone's clock shows that midnight at \<open>t\<close>, the count differs from the time
    from \<open>now\<close> to \<open>t\<close> by less than an hour, and where moreover the zone's offsets at
    \<open>now\<close> and at \<open>t\<close> differ by whole hours (as across a change to or from daylight
    saving time), it is that time rounded up to whole hours.
\<close>

theorem occurrence_at_local_midnight:
  assumes "candidates tzdb db now = Inr ds" and "d \<in> set ds"
    and "profile_timezone (userProfile d) = Some name"
  shows "\<exists>rule y t.
      tzdb name = Some rule
    \<and> valid_date (year_of (friend_dob (friends d))) (month_of (friend_dob (friends d)))
          (dayOfMonth_of (friend_dob (friends d)))
    \<and> gregorian_day_number (year_of (friend_dob (friends d))) (month_of (friend_dob (friends d)))
          (dayOfMonth_of (friend_dob (friends d))) = friend_dob (friends d) div 86400000
    \<and> month_of (friend_dob (friends d) - friend_dob (friends d) mod 86400000)
          = month_of (friend_dob (friends d))
    \<and> dayOfMonth_of (friend_dob (friends d) - friend_dob (friends d) mod 86400000)
          = dayOfMonth_of (friend_dob (friends d))
    \<and> valid_date (year_of now) (month_of now) (dayOfMonth_of now)
    \<and> gregorian_day_number (year_of now) (month_of now) (dayOfMonth_of now) = now div 86400000
    \<and> (y = year_of now \<or> y = year_of now + 1)
    \<and> (\<not> valid_date y (month_of (friend_dob (friends d))) (dayOfMonth_of (friend_dob (friends d)))
          \<longrightarrow> month_of (friend_dob (friends d)) = 2 \<and> dayOfMonth_of (friend_dob (friends d)) = 29
              \<and> \<not> leap_year y \<and> gregorian_day_number y 2 29 = gregorian_day_number y 3 1)
    \<and> upcomingBirthday d = Some t
    \<and> t = from_local rule
            (gregorian_day_number y (month_of (friend_dob (friends d)))
               (dayOfMonth_of (friend_dob (friends d))) * 86400000)
    \<and> hoursUntilBirthday d = Some (hours_between rule now t)
    \<and> (to_local rule t =
          gregorian_day_number y (month_of (friend_dob (friends d)))
            (dayOfMonth_of (friend_dob (friends d))) * 86400000
        \<longrightarrow> (hours_between rule now t - 1) * 3600000 < t - now
          \<and> t - now < (hours_between rule now t + 1) * 3600000
          \<and> ((to_local rule now - now) mod 3600000 = (to_local rule t - t) mod 3600000
               \<longrightarrow> hours_between rule now t = - ((now - t) div 3600000)))"
proof -
  define dob where "dob = friend_dob (friends d)"
  define m where "m = month_of dob"
  define dd where "dd = dayOfMonth_of dob"
  have vd: "valid_date (year_of dob) m dd"
    and gd: "gregorian_day_number (year_of dob) m dd = dob div 86400000"
    using civil_parts[of dob] by (simp_all add: m_def dd_def)
  have vn: "valid_date (year_of now) (month_of now) (dayOfMonth_of now)"
    and gn: "gregorian_day_number (year_of now) (month_of now) (dayOfMonth_of now) = now div 86400000"
    using civil_parts[of now] by simp_all
  have td: "month_of (dob - dob mod 86400000) = m" "dayOfMonth_of (dob - dob mod 86400000) = dd"
    using time_of_day_discarded[of dob] by (simp_all add: m_def dd_def)
  from vd have mm: "1 \<le> m" "m \<le> 12" by (simp_all add: valid_date_def)
  have occ: "occurrence rule y dob = from_local rule (gregorian_day_number y m dd * 86400000)"
    for rule y
    by (simp add: occurrence_def m_def[symmetric] dd_def[symmetric]
          days_from_civil_gregorian[OF mm])
  have feb: "\<not> valid_date y m dd \<longrightarrow>
      m = 2 \<and> dd = 29 \<and> \<not> leap_year y \<and> gregorian_day_number y 2 29 = gregorian_day_number y 3 1"
    for y
    using valid_in_year[OF vd, of y] leap_day_runs_on[of y] by blast
  from candidate_occurrences[OF assms] obtain rule where
    rule: "tzdb name = Some rule"
    and passed: "occurrence rule (year_of now) dob < now \<longrightarrow>
                   upcomingBirthday d = Some (occurrence rule (year_of now + 1) dob)
                 \<and> hoursUntilBirthday d =
                     Some (hours_between rule now (occurrence rule (year_of now + 1) dob))"
    and ahead: "\<not> occurrence rule (year_of now) dob < now \<longrightarrow>
                   upcomingBirthday d = Some (occurrence rule (year_of now) dob)
                 \<and> hoursUntilBirthday d =
                     Some (hours_between rule now (occurrence rule (year_of now) dob))"
    unfolding dob_def by blast
  define y where
    "y = (if occurrence rule (year_of now) dob < now then year_of now + 1 else year_of now)"
  define t where "t = occurrence rule y dob"
  have y: "y = year_of now \<or> y = year_of now + 1" by (simp add: y_def)
  have up: "upcomingBirthday d = Some t"
    and hrs: "hoursUntilBirthday d = Some (hours_between rule now t)"
    using passed ahead by (simp_all add: t_def y_def)
  have t: "t = from_local rule (gregorian_day_number y m dd * 86400000)"
    unfolding t_def by (rule occ)
  have near: "(hours_between rule now t - 1) * 3600000 < t - now
          \<and> t - now < (hours_between rule now t + 1) * 3600000
          \<and> ((to_local rule now - now) mod 3600000 = (to_local rule t - t) mod 3600000
               \<longrightarrow> hours_between rule now t = - ((now - t) div 3600000))"
    if "to_local rule t = gregorian_day_number y m dd * 86400000"
    using hours_to_midnight[OF that, of now] hours_to_midnight_rounded_up[OF that, of now]
    by blast
  have "tzdb name = Some rule
    \<and> valid_date (year_of dob) m dd
    \<and> gregorian_day_number (year_of dob) m dd = dob div 86400000
    \<and> month_of (dob - dob mod 86400000) = m
    \<and> dayOfMonth_of (dob - dob mod 86400000) = dd
    \<and> valid_date (year_of now) (month_of now) (dayOfMonth_of now)
    \<and> gregorian_day_number (year_of now) (month_of now) (dayOfMonth_of now) = now div 86400000
    \<and> (y = year_of now \<or> y = year_of now + 1)
    \<and> (\<not> valid_date y m dd
          \<longrightarrow> m = 2 \<and> dd = 29 \<and> \<not> leap_year y
              \<and> gregorian_day_number y 2 29 = gregorian_day_number y 3 1)
    \<and> upcomingBirthday d = Some t
    \<and> t = from_local rule (gregorian_day_number y m dd * 86400000)
    \<and> hoursUntilBirthday d = Some (hours_between rule now t)
    \<and> (to_local rule t = gregorian_day_number y m dd * 86400000
        \<longrightarrow> (hours_between rule now t - 1) * 3600000 < t - now
          \<and> t - now < (hours_between rule now t + 1) * 3600000
          \<and> ((to_local rule now - now) mod 3600000 = (to_local rule t - t) mod 3600000
               \<longrightarrow> hours_between rule now t = - ((now - t) div 3600000)))"
    using rule vd gd td vn gn y feb[of y] up t hrs near by blast
  then show ?thesis
    unfolding m_def dd_def dob_def by blast
qed

text \<open>
  The user in New York on 9 March 2024 at noon (17:00 UTC), and \<open>F\<close>, born on a 11 March:
  the birthday begins on 11 March at 00:00 on the zone's clock, which is 04:00 UTC, after
  the clocks have gone forward in the night of 10 March. The zone's clock moves on by
  36 hours, 35 hours pass, and \<open>hoursUntilBirthday\<close> is 35.
\<close>

theorem occurrence_at_local_midnight_witness:
  "candidates scenario_tzdb scenario_db_new_york scenario_noon =
     Inr [scenario_doc_F_new_york, scenario_doc_G_new_york]
   \<and> scenario_doc_F_new_york \<in> set [scenario_doc_F_new_york, scenario_doc_G_new_york]
   \<and> profile_timezone (userProfile scenario_doc_F_new_york) = Some ''America/New_York''
   \<and> scenario_tzdb ''America/New_York'' = Some new_york_2024
   \<and> year_of scenario_noon = 2024
   \<and> month_of (friend_dob (friends scenario_doc_F_new_york)) = 3
   \<and> dayOfMonth_of (friend_dob (friends scenario_doc_F_new_york)) = 11
   \<and> gregorian_day_number 2024 3 11 * 86400000 = 1710115200000
   \<and> from_local new_york_2024 1710115200000 = 1710129600000
   \<and> to_local new_york_2024 1710129600000 = 1710115200000
   \<and> to_local new_york_2024 scenario_noon - scenario_noon = - 18000000
   \<and> to_local new_york_2024 1710129600000 - 1710129600000 = - 14400000
   \<and> (to_local new_york_2024 scenario_noon - scenario_noon) mod 3600000
       = (to_local new_york_2024 1710129600000 - 1710129600000) mod 3600000
   \<and> to_local new_york_2024 1710129600000 - to_local new_york_2024 scenario_noon = 36 * 3600000
   \<and> 1710129600000 - scenario_noon = 35 * 3600000
   \<and> upcomingBirthday scenario_doc_F_new_york = Some 1710129600000
   \<and> hoursUntilBirthday scenario_doc_F_new_york = Some 35
   \<and> hours_between new_york_2024 scenario_noon 1710129600000 = 35
   \<and> hours_between new_york_2024 scenario_noon 1710129600000
       = - ((scenario_noon - 1710129600000) div 3600000)"
proof -
  let ?dob = "friend_dob (friends scenario_doc_F_new_york)"
  have c: "candidates scenario_tzdb scenario_db_new_york scenario_noon =
     Inr [scenario_doc_F_new_york, scenario_doc_G_new_york]"
    by code_simp
  have m: "scenario_doc_F_new_york \<in> set [scenario_doc_F_new_york, scenario_doc_G_new_york]"
    by simp
  have tz: "profile_timezone (userProfile scenario_doc_F_new_york) = Some ''America/New_York''"
    by (simp add: scenario_doc_F_new_york_def scenario_profile_new_york_def)
  have zone: "scenario_tzdb ''America/New_York'' = Some new_york_2024"
    by (simp add: scenario_tzdb_def)
  have yn: "year_of scenario_noon = 2024" by code_simp
  have mo: "month_of ?dob = 3" by code_simp
  have da: "dayOfMonth_of ?dob = 11" by code_simp
  have g24: "gregorian_day_number 2024 3 11 * 86400000 = 1710115200000" by code_simp
  have g25: "gregorian_day_number 2025 3 11 * 86400000 = 1741651200000" by code_simp
  have fl: "from_local new_york_2024 1710115200000 = 1710129600000"
    by (simp add: new_york_2024_def)
  have fl25: "from_local new_york_2024 1741651200000 = 1741665600000"
    by (simp add: new_york_2024_def)
  have tl: "to_local new_york_2024 1710129600000 = 1710115200000"
    by (simp add: new_york_2024_def)
  have tn: "to_local new_york_2024 scenario_noon = 1709985600000"
    by (simp add: new_york_2024_def scenario_noon_def)
  have off: "to_local new_york_2024 scenario_noon - scenario_noon = - 18000000"
    "to_local new_york_2024 1710129600000 - 1710129600000 = - 14400000"
    "(to_local new_york_2024 scenario_noon - scenario_noon) mod 3600000
       = (to_local new_york_2024 1710129600000 - 1710129600000) mod 3600000"
    "to_local new_york_2024 1710129600000 - to_local new_york_2024 scenario_noon = 36 * 3600000"
    "1710129600000 - scenario_noon = 35 * 3600000"
    unfolding tl tn by (simp_all add: scenario_noon_def)
  have up: "upcomingBirthday scenario_doc_F_new_york = Some 1710129600000"
    and hrs: "hoursUntilBirthday scenario_doc_F_new_york = Some 35"
    by (simp_all add: scenario_doc_F_new_york_def)
  from occurrence_at_local_midnight[OF c m tz] obtain rule y t where
    r: "scenario_tzdb ''America/New_York'' = Some rule"
    and y: "y = year_of scenario_noon \<or> y = year_of scenario_noon + 1"
    and u: "upcomingBirthday scenario_doc_F_new_york = Some t"
    and t: "t = from_local rule (gregorian_day_number y (month_of ?dob) (dayOfMonth_of ?dob) * 86400000)"
    and h: "hoursUntilBirthday scenario_doc_F_new_york = Some (hours_between rule scenario_noon t)"
    and imp: "to_local rule t =
          gregorian_day_number y (month_of ?dob) (dayOfMonth_of ?dob) * 86400000
        \<longrightarrow> (hours_between rule scenario_noon t - 1) * 3600000 < t - scenario_noon
          \<and> t - scenario_noon < (hours_between rule scenario_noon t + 1) * 3600000
          \<and> ((to_local rule scenario_noon - scenario_noon) mod 3600000 = (to_local rule t - t) mod 3600000
               \<longrightarrow> hours_between rule scenario_noon t = - ((scenario_noon - t) div 3600000))"
    by blast
  from r zone have rule: "rule = new_york_2024" by simp
  from u up have tv: "t = 1710129600000" by simp
  have y24: "y = 2024"
  proof (rule ccontr)
    assume "y \<noteq> 2024"
    with y yn have "y = 2025" by simp
    with t have "t = from_local new_york_2024 (gregorian_day_number 2025 3 11 * 86400000)"
      by (simp add: rule mo da)
    then have "t = 1741665600000" by (simp only: g25 fl25)
    with tv show False by simp
  qed
  from h hrs have h35: "hours_between new_york_2024 scenario_noon 1710129600000 = 35"
    unfolding rule tv by simp
  from imp have "hours_between new_york_2024 scenario_noon 1710129600000
       = - ((scenario_noon - 1710129600000) div 3600000)"
    unfolding rule tv y24 mo da g24 using tl off(3) by blast
  then show ?thesis
    using c m tz zone yn mo da g24 fl tl off up hrs h35 by blast
qed

end
